theory Spec2Isabelle
  imports Main
begin

section \<open>Python values shared by the models\<close>

text \<open>
  An exception class is known by its \<open>__name__\<close> and by whether it is a subclass of
  \<open>Exception\<close> (as opposed to deriving from \<open>BaseException\<close> only, like
  \<open>KeyboardInterrupt\<close> and \<open>SystemExit\<close>).  An exception instance carries its class
  and a message.
\<close>

datatype exc_class = ExcClass (cls_name: string) (is_Exception: bool)

datatype exn = Exn (exn_cls: exc_class) (exn_msg: string)

definition SkipTest :: exc_class where
  "SkipTest = ExcClass ''SkipTest'' True"

definition AssertionError :: exc_class where
  "AssertionError = ExcClass ''AssertionError'' True"

definition IOError :: exc_class where
  "IOError = ExcClass ''IOError'' True"

definition OSError :: exc_class where
  "OSError = ExcClass ''OSError'' True"

definition TypeError :: exc_class where
  "TypeError = ExcClass ''TypeError'' True"

definition AttributeError :: exc_class where
  "AttributeError = ExcClass ''AttributeError'' True"

definition IndexError :: exc_class where
  "IndexError = ExcClass ''IndexError'' True"


definition TimeoutException :: exc_class where
  "TimeoutException = ExcClass ''TimeoutException'' True"


definition KeyboardInterrupt :: exc_class where
  "KeyboardInterrupt = ExcClass ''KeyboardInterrupt'' False"

text \<open>
  \<open>exc_info\<close> is the triple \<open>(type, value, traceback)\<close> that the test framework hands
  to an on-exception hook.
\<close>

type_synonym exc_info = "exc_class \<times> exn \<times> string"

text \<open>
  A statement sequence that may raise: it maps a state to the new state and either the
  raised exception (\<open>Inl\<close>) or the value it produced (\<open>Inr\<close>).  The state reached
  when the exception was raised is kept, since effects before a raise are not undone.
\<close>

type_synonym ('s, 'a) act = "'s \<Rightarrow> 's \<times> (exn + 'a)"

definition exc_return :: "'a \<Rightarrow> ('s, 'a) act" where
  "exc_return a s = (s, Inr a)"

definition exc_bind :: "('s, 'a) act \<Rightarrow> ('a \<Rightarrow> ('s, 'b) act) \<Rightarrow> ('s, 'b) act" where
  "exc_bind m f s = (case m s of (s', Inl e) \<Rightarrow> (s', Inl e) | (s', Inr a) \<Rightarrow> f a s')"

text \<open>\<open>try: body finally: fin\<close>: \<open>fin\<close> always runs; an exception of \<open>fin\<close> replaces the
  outcome of \<open>body\<close>, otherwise the outcome of \<open>body\<close> stands.\<close>

definition try_finally :: "('s, 'a) act \<Rightarrow> ('s, unit) act \<Rightarrow> ('s, 'a) act" where
  "try_finally body fin s =
     (case body s of (s1, r1) \<Rightarrow>
        (case fin s1 of (s2, Inl e2) \<Rightarrow> (s2, Inl e2) | (s2, Inr _) \<Rightarrow> (s2, r1)))"

section \<open>helpers.py: the decorators\<close>

text \<open>
  \<^verbatim>\<open>
  def once_only(func):
      called_funcs = []
      @wraps(func)
      def wrapper(*args, **kwgs):
          if func.__name__ not in called_funcs:
              called_funcs.append(func.__name__)
              return func(*args, **kwgs)
      return wrapper
  \<close>
  The closure variable \<open>called_funcs\<close> is created once per decoration and lives as long
  as the wrapper does; it is the first component of the state here.  The name is appended
  before the body is called, so it stays recorded when the body raises.  A call that does
  not run the body falls off the end of \<open>wrapper\<close> and returns \<open>None\<close>.
\<close>

definition once_only ::
  "string \<Rightarrow> ('a \<Rightarrow> ('s, 'r) act) \<Rightarrow> 'a \<Rightarrow> (string list \<times> 's, 'r option) act" where
  "once_only func_name func args cs =
     (case cs of (called_funcs, s) \<Rightarrow>
        if func_name \<notin> set called_funcs
        then (case func args s of
                (s', Inl e) \<Rightarrow> ((called_funcs @ [func_name], s'), Inl e)
              | (s', Inr r) \<Rightarrow> ((called_funcs @ [func_name], s'), Inr (Some r)))
        else ((called_funcs, s), Inr None))"

text \<open>A process calling the wrapper several times, one argument per call; the outcomes
  of the calls are collected in order.  An exception of one call is caught by the caller
  (the test framework fails that test and runs the next).\<close>

fun once_only_calls ::
  "string \<Rightarrow> ('a \<Rightarrow> ('s, 'r) act) \<Rightarrow> 'a list \<Rightarrow> string list \<times> 's
     \<Rightarrow> (string list \<times> 's) \<times> (exn + 'r option) list" where
  "once_only_calls func_name func [] cs = (cs, [])"
| "once_only_calls func_name func (a # as) cs =
     (case once_only func_name func a cs of (cs', r) \<Rightarrow>
        (case once_only_calls func_name func as cs' of (cs'', rs) \<Rightarrow> (cs'', r # rs)))"

text \<open>The outcome of the body, as the wrapper passes it on.\<close>

definition passed_on :: "exn + 'r \<Rightarrow> exn + 'r option" where
  "passed_on r = (case r of Inl e \<Rightarrow> Inl e | Inr v \<Rightarrow> Inr (Some v))"

text \<open>
  \<^verbatim>\<open>
  def ignore_skip(func):
      @wraps(func)
      def wrapper(self, exc_info):
          if exc_info[0].__name__ == 'SkipTest':
              return
          return func(self, exc_info)
      return wrapper
  \<close>
\<close>

definition ignore_skip ::
  "('s \<Rightarrow> exc_info \<Rightarrow> 's \<times> (exn + unit)) \<Rightarrow> 's \<Rightarrow> exc_info \<Rightarrow> 's \<times> (exn + unit)" where
  "ignore_skip func self exc_info =
     (if cls_name (fst exc_info) = ''SkipTest'' then (self, Inr ())
      else func self exc_info)"

section \<open>helpers.py: the test case, its environment and the outside world\<close>

text \<open>
  The calls a test case makes to its collaborators (the virtual display, the browser
  driver, the video recorder process, the pages, the base class of the test framework).
  The state keeps the calls made so far, in order.
\<close>

datatype event =
    ConfigureLog
  | XvfbStart
  | DriverStart
  | MaximizeWindow
  | SetWindowSize
  | ImplicitlyWait
  | SetPageLoadTimeout
  | RecorderInit
  | RecorderStart
  | RecorderStop
  | SuperSetUp
  | IsLoggedIn
  | GoToHomePage
  | LogOut
  | DriverQuit
  | XvfbStop
  | SuperTearDown

text \<open>
  What a \<open>BaseTestCase\<close> instance and the report directory hold:
  \<^item> \<open>tc_trace\<close>: the collaborator calls made so far;
  \<^item> \<open>tc_vdisplay\<close>: \<open>hasattr(self, 'vdisplay')\<close>;
  \<^item> \<open>tc_launched\<close>: \<open>self.screencapture.is_launched\<close>;
  \<^item> \<open>tc_on_exception\<close>: the handlers registered with \<open>addOnException\<close>;
  \<^item> \<open>tc_report_dir\<close>: \<open>os.path.isdir(report_dir)\<close>;
  \<^item> \<open>tc_files\<close>: the files of the report directory, by name;
  \<^item> \<open>tc_details\<close>: the details attached with \<open>addDetail\<close>, by label;
  \<^item> \<open>tc_log_buffer\<close>: the text captured by the log handler.
\<close>

record testcase =
  tc_trace :: "event list"
  tc_vdisplay :: bool
  tc_launched :: bool
  tc_on_exception :: "string list"
  tc_report_dir :: bool
  tc_files :: "string \<rightharpoonup> string"
  tc_details :: "string \<rightharpoonup> string"
  tc_log_buffer :: string

text \<open>
  How the collaborators answer during one run: which calls raise, and what the calls
  that produce a text return.  The functions below are defined for every such answer.
\<close>

record world =
  w_raises :: "event \<Rightarrow> exn option"
  w_is_logged_in :: bool
  w_makedirs :: "exn option"
  w_open :: "string \<Rightarrow> exn option"
  w_page_html :: "exn + string"
  w_screenshot :: "exn + string"
  w_copyfile :: "exn + string"
  w_browser_log :: "exn + string"
  w_format_exc :: "exn \<Rightarrow> string"

text \<open>The process environment, \<open>os.environ\<close>.\<close>

type_synonym environ = "string \<rightharpoonup> string"

text \<open>The truth value of \<open>os.environ.get(name, False)\<close>: false when the variable is
  unset and when it is the empty string.\<close>

definition environ_get_truthy :: "environ \<Rightarrow> string \<Rightarrow> bool" where
  "environ_get_truthy env var = (case env var of None \<Rightarrow> False | Some v \<Rightarrow> v \<noteq> [])"

text \<open>A collaborator call: it is recorded, then it returns or raises.\<close>

definition call :: "world \<Rightarrow> event \<Rightarrow> (testcase, unit) act" where
  "call w ev s =
     (s\<lparr>tc_trace := tc_trace s @ [ev]\<rparr>,
      case w_raises w ev of None \<Rightarrow> Inr () | Some e \<Rightarrow> Inl e)"

subsection \<open>VideoRecorder\<close>

text \<open>
  \<^verbatim>\<open>
  def start(self):
      if not self.is_launched:
          FNULL = open(os.devnull, 'w')
          self._popen = subprocess.Popen(self._args, stdout=FNULL, stderr=FNULL)
          self.is_launched = True

  def stop(self):
      if self.is_launched:
          self._popen.send_signal(signal.SIGINT)
          self._popen.communicate()
          self.is_launched = False
  \<close>
\<close>

definition VideoRecorder_start :: "world \<Rightarrow> (testcase, unit) act" where
  "VideoRecorder_start w s =
     (if \<not> tc_launched s
      then exc_bind (call w RecorderStart) (\<lambda>_ s'. (s'\<lparr>tc_launched := True\<rparr>, Inr ())) s
      else (s, Inr ()))"

definition VideoRecorder_stop :: "world \<Rightarrow> (testcase, unit) act" where
  "VideoRecorder_stop w s =
     (if tc_launched s
      then exc_bind (call w RecorderStop) (\<lambda>_ s'. (s'\<lparr>tc_launched := False\<rparr>, Inr ())) s
      else (s, Inr ()))"

subsection \<open>BaseTestCase.setUp\<close>

text \<open>
  \<^verbatim>\<open>
  def setUp(self):
      self._configure_log()
      if not os.environ.get('INTEGRATION_TESTS', False):
          msg = "The INTEGRATION_TESTS env variable is not set."
          raise self.skipException(msg)
      if os.environ.get('SELENIUM_HEADLESS', False):
          self.vdisplay = xvfbwrapper.Xvfb(width=1920, height=1080)
          ...
          self.vdisplay.start()
      desired_capabilities = dict(webdriver.desired_capabilities)
      desired_capabilities['loggingPrefs'] = {'browser': 'ALL'}
      self.driver = webdriver.WebDriverWrapper(
          desired_capabilities=desired_capabilities)
      if self.CONFIG.selenium.maximize_browser:
          self.driver.maximize_window()
          if os.environ.get('SELENIUM_HEADLESS', False):
              self.driver.set_window_size('1920', '1080')
      self.driver.implicitly_wait(self.CONFIG.selenium.implicit_wait)
      self.driver.set_page_load_timeout(self.CONFIG.selenium.page_timeout)
      self.screencapture = VideoRecorder()
      self.screencapture.start()
      self.addOnException(self._attach_page_source)
      ... (the other four hooks)
      super(BaseTestCase, self).setUp()
  \<close>
  \<open>_configure_log\<close> installs a fresh buffer for the log.  The attribute \<open>vdisplay\<close> is
  assigned before the display is started.  The skip exception of the test framework is
  the class named \<open>SkipTest\<close>.
\<close>

definition skip_msg :: string where
  "skip_msg = ''The INTEGRATION_TESTS env variable is not set.''"

definition configure_log :: "testcase \<Rightarrow> testcase" where
  "configure_log s = s\<lparr>tc_trace := tc_trace s @ [ConfigureLog], tc_log_buffer := []\<rparr>"

definition start_vdisplay :: "world \<Rightarrow> (testcase, unit) act" where
  "start_vdisplay w s = call w XvfbStart (s\<lparr>tc_vdisplay := True\<rparr>)"

definition start_driver :: "environ \<Rightarrow> bool \<Rightarrow> world \<Rightarrow> (testcase, unit) act" where
  "start_driver env maximize_browser w =
     exc_bind (call w DriverStart) (\<lambda>_.
     exc_bind (if maximize_browser
               then exc_bind (call w MaximizeWindow) (\<lambda>_.
                    if environ_get_truthy env ''SELENIUM_HEADLESS''
                    then call w SetWindowSize else exc_return ())
               else exc_return ()) (\<lambda>_.
     exc_bind (call w ImplicitlyWait) (\<lambda>_.
     call w SetPageLoadTimeout)))"

definition add_hooks :: "(testcase, unit) act" where
  "add_hooks s =
     (s\<lparr>tc_on_exception := tc_on_exception s @
          [''_attach_page_source'', ''_attach_screenshot'', ''_attach_video'',
           ''_attach_browser_log'', ''_attach_test_log'']\<rparr>, Inr ())"

text \<open>
  \<open>BaseTestCase.setUp\<close>, for the environment \<open>env\<close> and the configuration flag
  \<open>CONFIG.selenium.maximize_browser\<close>: the log is configured, then the two gates, then
  the driver, the recorder, the hooks and the base class.
\<close>

definition BaseTestCase_setUp :: "environ \<Rightarrow> bool \<Rightarrow> world \<Rightarrow> (testcase, unit) act" where
  "BaseTestCase_setUp env maximize_browser w s =
     (let s1 = configure_log s in
      if \<not> environ_get_truthy env ''INTEGRATION_TESTS''
      then (s1, Inl (Exn SkipTest skip_msg))
      else
        exc_bind (if environ_get_truthy env ''SELENIUM_HEADLESS''
                  then start_vdisplay w else exc_return ()) (\<lambda>_.
        exc_bind (start_driver env maximize_browser w) (\<lambda>_.
        exc_bind (call w RecorderInit) (\<lambda>_.
        exc_bind (\<lambda>s'. VideoRecorder_start w (s'\<lparr>tc_launched := False\<rparr>)) (\<lambda>_.
        exc_bind add_hooks (\<lambda>_.
        call w SuperSetUp))))) s1)"

subsection \<open>tearDown\<close>

text \<open>
  \<^verbatim>\<open>
  def tearDown(self):                       # BaseTestCase
      self.screencapture.stop()
      if os.environ.get('INTEGRATION_TESTS', False):
          self.driver.quit()
      if hasattr(self, 'vdisplay'):
          self.vdisplay.stop()
      super(BaseTestCase, self).tearDown()

  def tearDown(self):                       # TestCase
      try:
          if self.home_pg.is_logged_in:
              self.home_pg.go_to_home_page()
              self.home_pg.log_out()
      finally:
          super(TestCase, self).tearDown()
  \<close>
\<close>

definition BaseTestCase_tearDown :: "environ \<Rightarrow> world \<Rightarrow> (testcase, unit) act" where
  "BaseTestCase_tearDown env w =
     exc_bind (VideoRecorder_stop w) (\<lambda>_.
     exc_bind (if environ_get_truthy env ''INTEGRATION_TESTS''
               then call w DriverQuit else exc_return ()) (\<lambda>_.
     exc_bind (\<lambda>s. if tc_vdisplay s then call w XvfbStop s else (s, Inr ())) (\<lambda>_.
     call w SuperTearDown)))"

definition is_logged_in :: "world \<Rightarrow> (testcase, bool) act" where
  "is_logged_in w = exc_bind (call w IsLoggedIn) (\<lambda>_. exc_return (w_is_logged_in w))"

definition log_out_step :: "world \<Rightarrow> (testcase, unit) act" where
  "log_out_step w =
     exc_bind (is_logged_in w) (\<lambda>logged_in.
       if logged_in
       then exc_bind (call w GoToHomePage) (\<lambda>_. call w LogOut)
       else exc_return ())"

definition TestCase_tearDown :: "environ \<Rightarrow> world \<Rightarrow> (testcase, unit) act" where
  "TestCase_tearDown env w = try_finally (log_out_step w) (BaseTestCase_tearDown env w)"

text \<open>The calls a function made: what it appended to the trace.\<close>

definition calls_made :: "testcase \<Rightarrow> testcase \<times> 'r \<Rightarrow> event list" where
  "calls_made s res = drop (length (tc_trace s)) (tc_trace (fst res))"

subsection \<open>The artifact hooks\<close>

text \<open>
  \<^verbatim>\<open>
  @property
  def _test_report_dir(self):
      report_dir = os.path.join(ROOT_PATH, 'test_reports', ...)
      if not os.path.isdir(report_dir):
          os.makedirs(report_dir)
      return report_dir

  @contextlib.contextmanager
  def log_exception(self, label):
      try:
          yield
      except Exception:
          self.addDetail(
              label, testtools.content.text_content(traceback.format_exc()))
  \<close>
  \<open>except Exception\<close> handles the instances of \<open>Exception\<close> and its subclasses; any
  other exception leaves the \<open>with\<close> block as it came.
\<close>

definition test_report_dir :: "world \<Rightarrow> (testcase, unit) act" where
  "test_report_dir w s =
     (if \<not> tc_report_dir s
      then (case w_makedirs w of
              Some e \<Rightarrow> (s, Inl e)
            | None \<Rightarrow> (s\<lparr>tc_report_dir := True\<rparr>, Inr ()))
      else (s, Inr ()))"

definition addDetail :: "string \<Rightarrow> string \<Rightarrow> testcase \<Rightarrow> testcase" where
  "addDetail label content s = s\<lparr>tc_details := (tc_details s)(label \<mapsto> content)\<rparr>"

definition log_exception :: "world \<Rightarrow> string \<Rightarrow> (testcase, unit) act \<Rightarrow> (testcase, unit) act" where
  "log_exception w label body s =
     (case body s of
        (s', Inl e) \<Rightarrow>
          if is_Exception (exn_cls e)
          then (addDetail label (w_format_exc w e) s', Inr ())
          else (s', Inl e)
      | (s', Inr _) \<Rightarrow> (s', Inr ()))"

text \<open>\<open>open(path, 'w')\<close> creates or truncates the file before anything is written.\<close>

definition open_w :: "world \<Rightarrow> string \<Rightarrow> (testcase, unit) act" where
  "open_w w file_name s =
     (case w_open w file_name of
        Some e \<Rightarrow> (s, Inl e)
      | None \<Rightarrow> (s\<lparr>tc_files := (tc_files s)(file_name \<mapsto> [])\<rparr>, Inr ()))"

definition file_write :: "string \<Rightarrow> string \<Rightarrow> (testcase, unit) act" where
  "file_write file_name content s =
     (s\<lparr>tc_files := (tc_files s)(file_name \<mapsto> content)\<rparr>, Inr ())"

text \<open>A call that produces the content of a file, or raises.\<close>

definition produce :: "exn + string \<Rightarrow> (testcase, string) act" where
  "produce r s = (s, r)"

text \<open>
  \<^verbatim>\<open>
  @ignore_skip
  def _attach_page_source(self, exc_info):
      source_path = os.path.join(self._test_report_dir, 'page.html')
      with self.log_exception("Attach page source"):
          with open(source_path, 'w') as f:
              f.write(self._get_page_html_source())

  @ignore_skip
  def _attach_screenshot(self, exc_info):
      screen_path = os.path.join(self._test_report_dir, 'screenshot.png')
      with self.log_exception("Attach screenshot"):
          self.driver.get_screenshot_as_file(screen_path)

  @ignore_skip
  def _attach_video(self, exc_info):
      with self.log_exception("Attach video"):
          self.screencapture.stop()
          copyfile(self.screencapture.file_path,
                   os.path.join(self._test_report_dir, 'video.mp4'))

  @ignore_skip
  def _attach_browser_log(self, exc_info):
      browser_log_path = os.path.join(self._test_report_dir, 'browser.log')
      with self.log_exception("Attach browser log"):
          with open(browser_log_path, 'w') as f:
              f.write(
                  self._unwrap_browser_log(self.driver.get_log('browser')))

  @ignore_skip
  def _attach_test_log(self, exc_info):
      test_log_path = os.path.join(self._test_report_dir, 'test.log')
      with self.log_exception("Attach test log"):
          with open(test_log_path, 'w') as f:
              f.write(self._log_buffer.getvalue().encode('utf-8'))
  \<close>
  Each body is defined first, then the hook as the body under the decorator.  In
  \<open>_attach_video\<close> the report directory is made inside the \<open>with\<close> block, in the
  other four before it.
\<close>

definition attach_page_source_body :: "world \<Rightarrow> testcase \<Rightarrow> exc_info \<Rightarrow> testcase \<times> (exn + unit)" where
  "attach_page_source_body w self exc_info =
     exc_bind (test_report_dir w) (\<lambda>_.
       log_exception w ''Attach page source''
         (exc_bind (open_w w ''page.html'') (\<lambda>_.
          exc_bind (produce (w_page_html w)) (\<lambda>html.
          file_write ''page.html'' html)))) self"

definition attach_screenshot_body :: "world \<Rightarrow> testcase \<Rightarrow> exc_info \<Rightarrow> testcase \<times> (exn + unit)" where
  "attach_screenshot_body w self exc_info =
     exc_bind (test_report_dir w) (\<lambda>_.
       log_exception w ''Attach screenshot''
         (exc_bind (produce (w_screenshot w)) (\<lambda>png.
          file_write ''screenshot.png'' png))) self"

definition attach_video_body :: "world \<Rightarrow> testcase \<Rightarrow> exc_info \<Rightarrow> testcase \<times> (exn + unit)" where
  "attach_video_body w self exc_info =
     log_exception w ''Attach video''
       (exc_bind (VideoRecorder_stop w) (\<lambda>_.
        exc_bind (test_report_dir w) (\<lambda>_.
        exc_bind (produce (w_copyfile w)) (\<lambda>mp4.
        file_write ''video.mp4'' mp4)))) self"

definition attach_browser_log_body :: "world \<Rightarrow> testcase \<Rightarrow> exc_info \<Rightarrow> testcase \<times> (exn + unit)" where
  "attach_browser_log_body w self exc_info =
     exc_bind (test_report_dir w) (\<lambda>_.
       log_exception w ''Attach browser log''
         (exc_bind (open_w w ''browser.log'') (\<lambda>_.
          exc_bind (produce (w_browser_log w)) (\<lambda>log.
          file_write ''browser.log'' log)))) self"

definition attach_test_log_body :: "world \<Rightarrow> testcase \<Rightarrow> exc_info \<Rightarrow> testcase \<times> (exn + unit)" where
  "attach_test_log_body w self exc_info =
     exc_bind (test_report_dir w) (\<lambda>_.
       log_exception w ''Attach test log''
         (exc_bind (open_w w ''test.log'') (\<lambda>_ s.
          file_write ''test.log'' (tc_log_buffer s) s))) self"

text \<open>The hooks as the class has them, each under \<open>@ignore_skip\<close>.\<close>

definition attach_page_source :: "world \<Rightarrow> testcase \<Rightarrow> exc_info \<Rightarrow> testcase \<times> (exn + unit)" where
  "attach_page_source w = ignore_skip (attach_page_source_body w)"

definition attach_screenshot :: "world \<Rightarrow> testcase \<Rightarrow> exc_info \<Rightarrow> testcase \<times> (exn + unit)" where
  "attach_screenshot w = ignore_skip (attach_screenshot_body w)"

definition attach_video :: "world \<Rightarrow> testcase \<Rightarrow> exc_info \<Rightarrow> testcase \<times> (exn + unit)" where
  "attach_video w = ignore_skip (attach_video_body w)"

definition attach_browser_log :: "world \<Rightarrow> testcase \<Rightarrow> exc_info \<Rightarrow> testcase \<times> (exn + unit)" where
  "attach_browser_log w = ignore_skip (attach_browser_log_body w)"

definition attach_test_log :: "world \<Rightarrow> testcase \<Rightarrow> exc_info \<Rightarrow> testcase \<times> (exn + unit)" where
  "attach_test_log w = ignore_skip (attach_test_log_body w)"

section \<open>The page objects\<close>

subsection \<open>Regions as objects of a store\<close>

text \<open>
  A page keeps references to the driver and to the configuration (their addresses), and
  its title.  A region object records its class and the two constructor arguments.  The
  store is the list of the region objects created so far; an object's address is its
  index in the list.
\<close>

datatype region_cls = UsersTable | VolumesTable | ApiAccessTable

record region_obj =
  ro_cls :: region_cls
  ro_driver :: nat
  ro_conf :: nat

record page =
  pg_driver :: nat
  pg_conf :: nat
  pg_title :: string

type_synonym store = "region_obj list"

text \<open>
  Modelled from the spec: the constructor of \<open>TableRegion\<close> (regions/tables.py is not
  among the sources).  "Every Page/Region/Element is created fresh per access (no caching
  across calls)": the call \<open>Cls(driver, conf)\<close> allocates a new object that holds the
  two arguments, and leaves every other object as it was.
\<close>

definition new_region :: "region_cls \<Rightarrow> nat \<Rightarrow> nat \<Rightarrow> store \<Rightarrow> nat \<times> store" where
  "new_region c driver conf h =
     (length h, h @ [\<lparr>ro_cls = c, ro_driver = driver, ro_conf = conf\<rparr>])"

text \<open>
  \<^verbatim>\<open>
  @property
  def users_table(self):
      return UsersTable(self.driver, self.conf)
  \<close>
  and the same for \<open>volumes_table\<close> and \<open>apiaccess_table\<close>.
\<close>

definition users_table :: "page \<Rightarrow> store \<Rightarrow> nat \<times> store" where
  "users_table self = new_region UsersTable (pg_driver self) (pg_conf self)"

definition volumes_table :: "page \<Rightarrow> store \<Rightarrow> nat \<times> store" where
  "volumes_table self = new_region VolumesTable (pg_driver self) (pg_conf self)"

definition apiaccess_table :: "page \<Rightarrow> store \<Rightarrow> nat \<times> store" where
  "apiaccess_table self = new_region ApiAccessTable (pg_driver self) (pg_conf self)"

text \<open>Two successive accesses to a table property: the two addresses returned and the
  store after the second.\<close>

definition access_twice ::
  "(page \<Rightarrow> store \<Rightarrow> nat \<times> store) \<Rightarrow> page \<Rightarrow> store \<Rightarrow> nat \<times> nat \<times> store" where
  "access_twice prop self h =
     (case prop self h of (a1, h1) \<Rightarrow> (case prop self h1 of (a2, h2) \<Rightarrow> (a1, a2, h2)))"

subsection \<open>Rows of a rendered table\<close>

text \<open>
  A row of the table that the browser currently renders: the displayed text of each of
  its columns, by column name.  A rendered table is the list of its rows, top down.
\<close>

type_synonym row = "(string \<times> string) list"

definition cell_text :: "row \<Rightarrow> string \<Rightarrow> string option" where
  "cell_text r column = map_of r column"

text \<open>
  Modelled from the spec: \<open>TableRegion.get_row\<close> (regions/tables.py is not among the
  sources), "lookup of a row by a column's displayed value": the rows are searched for
  one whose cell in the column displays the text; the result is that row, or \<open>None\<close>
  when no row does.
\<close>

definition get_row :: "row list \<Rightarrow> string \<Rightarrow> string \<Rightarrow> row option" where
  "get_row rows column shown = find (\<lambda>r. cell_text r column = Some shown) rows"

text \<open>\<open>bool(x)\<close> for the result of a row lookup: \<open>None\<close> is false, a row object is true.\<close>

definition py_bool :: "'a option \<Rightarrow> bool" where
  "py_bool x = (x \<noteq> None)"

definition USERS_TABLE_NAME_COLUMN :: string where
  "USERS_TABLE_NAME_COLUMN = ''name''"

definition VOLUMES_TABLE_NAME_COLUMN :: string where
  "VOLUMES_TABLE_NAME_COLUMN = ''name''"

definition VOLUMES_TABLE_STATUS_COLUMN :: string where
  "VOLUMES_TABLE_STATUS_COLUMN = ''status''"

text \<open>
  \<^verbatim>\<open>
  def _get_row_with_user_name(self, name):
      return self.users_table.get_row(self.USERS_TABLE_NAME_COLUMN, name)

  def is_user_present(self, name):
      return bool(self._get_row_with_user_name(name))
  \<close>
  The first argument is the users table as rendered when the lookup runs.
\<close>

definition get_row_with_user_name :: "row list \<Rightarrow> string \<Rightarrow> row option" where
  "get_row_with_user_name rendered name = get_row rendered USERS_TABLE_NAME_COLUMN name"

definition is_user_present :: "row list \<Rightarrow> string \<Rightarrow> bool" where
  "is_user_present rendered name = py_bool (get_row_with_user_name rendered name)"

definition get_row_with_volume_name :: "row list \<Rightarrow> string \<Rightarrow> row option" where
  "get_row_with_volume_name rendered name = get_row rendered VOLUMES_TABLE_NAME_COLUMN name"

definition is_volume_present :: "row list \<Rightarrow> string \<Rightarrow> bool" where
  "is_volume_present rendered name = py_bool (get_row_with_volume_name rendered name)"

text \<open>The rows of a table whose cell in the column displays the text.\<close>

definition matching_rows :: "row list \<Rightarrow> string \<Rightarrow> string \<Rightarrow> row list" where
  "matching_rows rows column shown = filter (\<lambda>r. cell_text r column = Some shown) rows"

subsection \<open>Polling\<close>

text \<open>
  Modelled from the spec: the polling helper \<open>_wait_until\<close> of the page base class (not
  among the sources).  "Repeatedly evaluate a supplied condition function against the
  live DOM until it returns a truthy result or a timeout elapses, then fail with a
  timeout condition"; "bounded retry with fixed polling interval, no backoff, no
  cancellation beyond the timeout".

  Time is counted in polling intervals.  The condition is evaluated against what the
  browser (or the file system) shows at that time, so it is a function of the time.  The
  helper starts at time \<open>t\<close>; it returns the times at which it evaluated the condition,
  and whether it returned to its caller (\<open>Inr\<close>) or raised the timeout (\<open>Inl\<close>).
\<close>

definition timeout_exn :: exn where
  "timeout_exn = Exn TimeoutException []"

function wait_until :: "(nat \<Rightarrow> bool) \<Rightarrow> nat \<Rightarrow> nat \<Rightarrow> nat list \<times> (exn + unit)" where
  "wait_until cond timeout t =
     (if cond t then ([t], Inr ())
      else if timeout \<le> t then ([t], Inl timeout_exn)
      else (case wait_until cond timeout (Suc t) of (ts, r) \<Rightarrow> (t # ts, r)))"
  by pat_completeness auto
termination
  by (relation "measure (\<lambda>(cond, timeout, t). timeout - t)") auto

text \<open>
  Modelled from the spec: \<open>TableRegion.is_row_deleted\<close> and
  \<open>TableRegion.wait_cell_status\<close> (regions/tables.py is not among the sources), "polling
  for row disappearance/status change": the first polls until the row getter finds no
  row, the second until the cell getter finds a cell that displays the status.
\<close>

definition is_row_deleted :: "(nat \<Rightarrow> row option) \<Rightarrow> nat \<Rightarrow> exn + bool" where
  "is_row_deleted row_getter timeout =
     (case snd (wait_until (\<lambda>t. row_getter t = None) timeout 0) of
        Inl e \<Rightarrow> Inl e
      | Inr _ \<Rightarrow> Inr True)"

definition wait_cell_status :: "(nat \<Rightarrow> string option) \<Rightarrow> string \<Rightarrow> nat \<Rightarrow> exn + bool" where
  "wait_cell_status getter status timeout =
     (case snd (wait_until (\<lambda>t. getter t = Some status) timeout 0) of
        Inl e \<Rightarrow> Inl e
      | Inr _ \<Rightarrow> Inr True)"

text \<open>
  \<^verbatim>\<open>
  def is_volume_status(self, name, status):
      def cell_getter():
          row = self._get_row_with_volume_name(name)
          return row and row.cells[self.VOLUMES_TABLE_STATUS_COLUMN]
      return bool(self.volumes_table.wait_cell_status(cell_getter, status))

  def is_volume_deleted(self, name):
      return self.volumes_table.is_row_deleted(
          lambda: self._get_row_with_volume_name(name))
  \<close>
  \<open>rendered t\<close> is the volumes table as the browser renders it at time \<open>t\<close>.
\<close>

definition cell_getter :: "(nat \<Rightarrow> row list) \<Rightarrow> string \<Rightarrow> nat \<Rightarrow> string option" where
  "cell_getter rendered name t =
     (case get_row_with_volume_name (rendered t) name of
        None \<Rightarrow> None
      | Some r \<Rightarrow> cell_text r VOLUMES_TABLE_STATUS_COLUMN)"

definition is_volume_status :: "(nat \<Rightarrow> row list) \<Rightarrow> nat \<Rightarrow> string \<Rightarrow> string \<Rightarrow> exn + bool" where
  "is_volume_status rendered timeout name status =
     wait_cell_status (cell_getter rendered name) status timeout"

definition is_volume_deleted :: "(nat \<Rightarrow> row list) \<Rightarrow> nat \<Rightarrow> string \<Rightarrow> exn + bool" where
  "is_volume_deleted rendered timeout name =
     is_row_deleted (\<lambda>t. get_row_with_volume_name (rendered t) name) timeout"

subsection \<open>VolumesPage.create_volume\<close>

text \<open>
  The Python values a local variable of \<open>create_volume\<close> can hold: \<open>None\<close>, a string,
  an integer, a form control (known by its field name), or a tuple.
\<close>

datatype pyval =
    PNone
  | PStr string
  | PInt int
  | PField string
  | PTuple "pyval list"

text \<open>\<open>a != b\<close>: values of different types are unequal; strings, integers, \<open>None\<close> and
  tuples compare by value.\<close>

definition py_ne :: "pyval \<Rightarrow> pyval \<Rightarrow> bool" where
  "py_ne a b = (a \<noteq> b)"

definition VOLUME_SOURCE_TYPE :: string where
  "VOLUME_SOURCE_TYPE = ''Volume''"

definition IMAGE_SOURCE_TYPE :: string where
  "IMAGE_SOURCE_TYPE = ''Image''"

definition CREATE_VOLUME_FROM_IMAGE_FORM_FIELDS :: "string list" where
  "CREATE_VOLUME_FROM_IMAGE_FORM_FIELDS =
     [''name'', ''description'', ''volume_source_type'', ''image_source'',
      ''type'', ''size'', ''availability_zone'']"

text \<open>
  A form region: its field mappings, the assignments made to its controls so far
  (field, attribute, value) in order, and whether it was submitted.
\<close>

record form =
  fm_mappings :: "string list"
  fm_sets :: "(string \<times> string \<times> pyval) list"
  fm_submitted :: bool

text \<open>
  \<open>FormRegion\<close> (regions/forms.py) is not among the sources, so what its controls do is
  a parameter: which attribute names a form with given field mappings resolves to a
  control (any other name raises \<open>AttributeError\<close>), which assignments to a control
  raise, and whether \<open>submit\<close> raises.
\<close>

record form_world =
  fw_has_field :: "string list \<Rightarrow> string \<Rightarrow> bool"
  fw_set_raises :: "string \<Rightarrow> exn option"
  fw_submit_raises :: "exn option"

text \<open>
  Modelled from the spec: the attribute lookup of \<open>FormRegion\<close> (regions/forms.py is not
  among the sources).  A Form Region maps "a fixed, ordered list of field names to UI
  controls" and a region exposes "each mapped name as a readable/writable property": a
  form resolves the names of its field mappings, and no other.
\<close>

definition mapped_names :: "string list \<Rightarrow> string \<Rightarrow> bool" where
  "mapped_names mappings field = (field \<in> set mappings)"

text \<open>The settings \<open>create_volume\<close> reads: \<open>conf.launch_instances.image_name\<close>,
  \<open>conf.launch_instances.available_zone\<close>, \<open>conf.volume.volume_size\<close> and
  \<open>conf.volume.volume_type\<close>.\<close>

record conf =
  cf_image_name :: string
  cf_available_zone :: string
  cf_volume_size :: int
  cf_volume_type :: string

text \<open>\<open>VolumesTable.create_volume\<close>: the form it returns.\<close>

definition VolumesTable_create_volume :: form where
  "VolumesTable_create_volume =
     \<lparr>fm_mappings = CREATE_VOLUME_FROM_IMAGE_FORM_FIELDS, fm_sets = [], fm_submitted = False\<rparr>"

text \<open>\<open>volume_form.<name>\<close>\<close>

definition form_getattr :: "form_world \<Rightarrow> string \<Rightarrow> (form, pyval) act" where
  "form_getattr fw field f =
     (if fw_has_field fw (fm_mappings f) field then (f, Inr (PField field))
      else (f, Inl (Exn AttributeError field)))"

text \<open>\<open>control.<attr> = v\<close>, for a value that is a form control; subscripting or
  assigning through anything else is a \<open>TypeError\<close> or an \<open>AttributeError\<close>.\<close>

definition control_set :: "form_world \<Rightarrow> pyval \<Rightarrow> string \<Rightarrow> pyval \<Rightarrow> (form, unit) act" where
  "control_set fw control attr v f =
     (case control of
        PField field \<Rightarrow>
          (case fw_set_raises fw field of
             Some e \<Rightarrow> (f, Inl e)
           | None \<Rightarrow> (f\<lparr>fm_sets := fm_sets f @ [(field, attr, v)]\<rparr>, Inr ()))
      | _ \<Rightarrow> (f, Inl (Exn AttributeError attr)))"

text \<open>\<open>volume_form.<name>.<attr> = v\<close>\<close>

definition form_set :: "form_world \<Rightarrow> string \<Rightarrow> string \<Rightarrow> pyval \<Rightarrow> (form, unit) act" where
  "form_set fw field attr v =
     exc_bind (form_getattr fw field) (\<lambda>control. control_set fw control attr v)"

definition form_submit :: "form_world \<Rightarrow> (form, unit) act" where
  "form_submit fw f =
     (case fw_submit_raises fw of
        Some e \<Rightarrow> (f, Inl e)
      | None \<Rightarrow> (f\<lparr>fm_submitted := True\<rparr>, Inr ()))"

text \<open>\<open>x[i]\<close> for the value \<open>x\<close> of a local variable.\<close>

definition py_subscript :: "pyval \<Rightarrow> nat \<Rightarrow> (form, pyval) act" where
  "py_subscript x i f =
     (case x of
        PTuple vs \<Rightarrow> (if i < length vs then (f, Inr (vs ! i)) else (f, Inl (Exn IndexError [])))
      | _ \<Rightarrow> (f, Inl (Exn TypeError [])))"

text \<open>
  \<^verbatim>\<open>
  def _get_source_name(self, volume_form, volume_source_type, conf,
                       volume_source):
      if volume_source_type == IMAGE_SOURCE_TYPE:
          return volume_form.image_source, conf.image_name
      if volume_source_type == VOLUME_SOURCE_TYPE:
          return volume_form.volume_id, volume_source
  \<close>
  A call that matches neither test falls off the end and returns \<open>None\<close>.
\<close>

definition get_source_name :: "form_world \<Rightarrow> string \<Rightarrow> conf \<Rightarrow> pyval \<Rightarrow> (form, pyval) act" where
  "get_source_name fw volume_source_type cf volume_source =
     (if volume_source_type = IMAGE_SOURCE_TYPE
      then exc_bind (form_getattr fw ''image_source'') (\<lambda>c.
             exc_return (PTuple [c, PStr (cf_image_name cf)]))
      else if volume_source_type = VOLUME_SOURCE_TYPE
      then exc_bind (form_getattr fw ''volume_id'') (\<lambda>c.
             exc_return (PTuple [c, volume_source]))
      else exc_return PNone)"

text \<open>
  \<^verbatim>\<open>
  def create_volume(self, volume_name, description=None,
                    volume_source_type=IMAGE_SOURCE_TYPE,
                    volume_size=None,
                    volume_source=None):
      volume_form = self.volumes_table.create_volume()
      volume_form.name.text = volume_name
      if description is not None:
          volume_form.description.text = description
      volume_form.volume_source_type.text = volume_source_type
      volume_source_type = self._get_source_name(volume_form,
                                                 volume_source_type,
                                                 self.conf.launch_instances,
                                                 volume_source)
      volume_source_type[0].text = volume_source_type[1]
      if volume_size is None:
          volume_size = self.conf.volume.volume_size
      volume_form.size.value = volume_size
      if volume_source_type != "Volume":
          volume_form.type.value = self.conf.volume.volume_type
          volume_form.availability_zone.value = \
              self.conf.launch_instances.available_zone
      volume_form.submit()
  \<close>
  The value of the local variable \<open>volume_source_type\<close> after its reassignment is
  \<open>source\<close> below.  The result is the form as the call left it.
\<close>

definition create_volume ::
  "form_world \<Rightarrow> conf \<Rightarrow> string \<Rightarrow> string option \<Rightarrow> string \<Rightarrow> int option \<Rightarrow> pyval
     \<Rightarrow> form \<times> (exn + unit)" where
  "create_volume fw cf volume_name description volume_source_type volume_size volume_source =
     (exc_bind (form_set fw ''name'' ''text'' (PStr volume_name)) (\<lambda>_.
      exc_bind (case description of
                  Some d \<Rightarrow> form_set fw ''description'' ''text'' (PStr d)
                | None \<Rightarrow> exc_return ()) (\<lambda>_.
      exc_bind (form_set fw ''volume_source_type'' ''text'' (PStr volume_source_type)) (\<lambda>_.
      exc_bind (get_source_name fw volume_source_type cf volume_source) (\<lambda>source.
      exc_bind (py_subscript source 1) (\<lambda>v.
      exc_bind (py_subscript source 0) (\<lambda>control.
      exc_bind (control_set fw control ''text'' v) (\<lambda>_.
      exc_bind (form_set fw ''size'' ''value''
                  (PInt (case volume_size of None \<Rightarrow> cf_volume_size cf | Some n \<Rightarrow> n))) (\<lambda>_.
      exc_bind (if py_ne source (PStr ''Volume'')
                then exc_bind (form_set fw ''type'' ''value'' (PStr (cf_volume_type cf))) (\<lambda>_.
                     form_set fw ''availability_zone'' ''value'' (PStr (cf_available_zone cf)))
                else exc_return ()) (\<lambda>_.
      form_submit fw))))))))))
       VolumesTable_create_volume"

subsection \<open>ApiaccessPage\<close>


definition dquote :: char where
  "dquote = CHR 0x22"

definition newline :: char where
  "newline = CHR 0x0A"





text \<open>
  A directory: its entries in the order \<open>listdir\<close> returns them, each with its name,
  whether it is a regular file, and its content.
  \<^verbatim>\<open>
  def list_of_files(self, directory, template):
      return [f for f in listdir(directory) if isfile(join(directory, f))
              and f.endswith(template)]
  \<close>
\<close>

type_synonym directory = "(string \<times> bool \<times> string) list"

definition endswith :: "string \<Rightarrow> string \<Rightarrow> bool" where
  "endswith f template =
     (length template \<le> length f \<and> drop (length f - length template) f = template)"

definition list_of_files :: "directory \<Rightarrow> string \<Rightarrow> string list" where
  "list_of_files dir template =
     map fst (filter (\<lambda>(f, isfile, content). isfile \<and> endswith f template) dir)"










section \<open>Concrete runs\<close>

text \<open>Values on which the functions above are evaluated below.\<close>

definition quiet_world :: world where
  "quiet_world =
     \<lparr>w_raises = (\<lambda>_. None), w_is_logged_in = True, w_makedirs = None,
      w_open = (\<lambda>_. None), w_page_html = Inr ''<body></body>'',
      w_screenshot = Inr ''PNG'', w_copyfile = Inr ''MP4'',
      w_browser_log = Inr ''log'', w_format_exc = exn_msg\<rparr>"

text \<open>The copy of the video is interrupted from the keyboard.\<close>

definition interrupted_world :: world where
  "interrupted_world = quiet_world\<lparr>w_copyfile := Inl (Exn KeyboardInterrupt ''^C'')\<rparr>"

text \<open>The copy of the video fails with an I/O error.\<close>

definition failing_copy_world :: world where
  "failing_copy_world = quiet_world\<lparr>w_copyfile := Inl (Exn IOError ''no space left'')\<rparr>"



text \<open>A test case before \<open>setUp\<close>, and one whose \<open>setUp\<close> has passed.\<close>

definition testcase0 :: testcase where
  "testcase0 =
     \<lparr>tc_trace = [], tc_vdisplay = False, tc_launched = False, tc_on_exception = [],
      tc_report_dir = False, tc_files = Map.empty, tc_details = Map.empty,
      tc_log_buffer = []\<rparr>"

definition running_testcase :: testcase where
  "running_testcase = testcase0\<lparr>tc_launched := True, tc_log_buffer := ''DEBUG started''\<rparr>"



definition failure_info :: exc_info where
  "failure_info = (AssertionError, Exn AssertionError ''row not found'', ''Traceback'')"

definition skip_info :: exc_info where
  "skip_info = (SkipTest, Exn SkipTest skip_msg, ''Traceback'')"

definition env_headless_empty :: environ where
  "env_headless_empty = [''INTEGRATION_TESTS'' \<mapsto> ''1'', ''SELENIUM_HEADLESS'' \<mapsto> []]"

definition env_only_headless :: environ where
  "env_only_headless = [''SELENIUM_HEADLESS'' \<mapsto> ''1'']"

text \<open>A users table that shows the name \<open>demo\<close> in two rows.\<close>

definition duplicate_rows :: "row list" where
  "duplicate_rows =
     [[(''name'', ''admin''), (''enabled'', ''Yes'')],
      [(''name'', ''demo''), (''enabled'', ''Yes'')],
      [(''name'', ''demo''), (''enabled'', ''No'')]]"

text \<open>A form that resolves the names of its field mappings, and whose controls accept
  their values.\<close>

definition strict_form_world :: form_world where
  "strict_form_world =
     \<lparr>fw_has_field = mapped_names, fw_set_raises = (\<lambda>_. None), fw_submit_raises = None\<rparr>"

definition conf0 :: conf where
  "conf0 = \<lparr>cf_image_name = ''cirros'', cf_available_zone = ''nova'',
            cf_volume_size = 1, cf_volume_type = ''lvmdriver-1''\<rparr>"

text \<open>A version 2 credentials file, and a download directory in which it appears at
  time 2.\<close>

definition rc_v2 :: string where
  "rc_v2 = ''export OS_USERNAME='' @ [dquote] @ ''admin'' @ [dquote, newline] @
           ''export OS_TENANT_NAME='' @ [dquote] @ ''demo'' @ [dquote, newline] @
           ''export OS_TENANT_ID=4f2a'' @ [newline]"

definition downloads :: "nat \<Rightarrow> directory" where
  "downloads t =
     (if t < 2 then [(''notes.txt'', True, [])]
      else [(''notes.txt'', True, []), (''demo-openrc.sh'', True, rc_v2)])"



definition page0 :: page where
  "page0 = \<lparr>pg_driver = 0, pg_conf = 1, pg_title = ''Users''\<rparr>"

section \<open>Properties of the decorators\<close>

lemma once_only_recorded:
  "f \<in> set called \<Longrightarrow>
   once_only_calls f func as (called, s) = ((called, s), replicate (length as) (Inr None))"
  by (induction as) (simp_all add: once_only_def)

lemma once_only_first:
  "once_only f func a (called, s) =
     (if f \<in> set called then ((called, s), Inr None)
      else ((called @ [f], fst (func a s)), passed_on (snd (func a s))))"
proof -
  obtain s' r where fa: "func a s = (s', r)" by (cases "func a s")
  then show ?thesis by (cases r) (simp_all add: once_only_def passed_on_def)
qed

text \<open>
  C10.  A function under \<open>once_only\<close> runs its body at most once: a call runs the body
  exactly when the function's name is not yet in the decoration's list \<open>called_funcs\<close>,
  and then records the name and returns the body's result; any other call returns
  \<open>None\<close> and changes nothing.  So of the calls a process makes, with whatever arguments,
  the first runs the body on its own argument and every later one returns \<open>None\<close>, and
  the list holds the name once.
\<close>

theorem once_only_runs_body_once:
  "once_only f func a (called, s) =
     (if f \<in> set called then ((called, s), Inr None)
      else ((called @ [f], fst (func a s)), passed_on (snd (func a s))))
   \<and> once_only_calls f func (a # as) ([], s) =
       (([f], fst (func a s)), passed_on (snd (func a s)) # replicate (length as) (Inr None))"
proof -
  have one: "once_only f func a ([], s) = (([f], fst (func a s)), passed_on (snd (func a s)))"
    by (simp add: once_only_first)
  have rest: "once_only_calls f func as ([f], fst (func a s)) =
      (([f], fst (func a s)), replicate (length as) (Inr None))"
    by (rule once_only_recorded) simp
  have "once_only_calls f func (a # as) ([], s) =
       (([f], fst (func a s)), passed_on (snd (func a s)) # replicate (length as) (Inr None))"
    by (simp add: one rest)
  then show ?thesis by (simp add: once_only_first)
qed

text \<open>Three calls of a body that counts its runs and returns its argument: the body
  ran once, on the first argument.\<close>

theorem once_only_runs_body_once_witness:
  "once_only_calls ''create_demo_user'' (\<lambda>a n. (Suc n, Inr a)) [7, 8, 9 :: nat] ([], 0 :: nat) =
     (([''create_demo_user''], 1), [Inr (Some 7), Inr None, Inr None])"
proof -
  have "once_only_calls ''create_demo_user'' (\<lambda>a n. (Suc n, Inr a)) (7 # [8, 9 :: nat]) ([], 0 :: nat) =
      (([''create_demo_user''], fst (Suc 0, Inr (7 :: nat) :: exn + nat)),
       passed_on (snd (Suc 0, Inr (7 :: nat) :: exn + nat)) # replicate (length [8, 9 :: nat]) (Inr None))"
    using once_only_runs_body_once
      [of "''create_demo_user''" "\<lambda>a n. (Suc n, Inr a)" "7 :: nat" "[]" "0 :: nat" "[8, 9]"]
    by (rule conjunct2)
  also have "\<dots> = (([''create_demo_user''], 1), [Inr (Some 7), Inr None, Inr None])"
    by (simp add: passed_on_def)
  finally show ?thesis .
qed

lemma once_only_body_raises:
  "once_only_calls f (\<lambda>a s. (s, Inl e)) [a, b] ([], s) = (([f], s), [Inl e, Inr None])"
  by (simp add: once_only_def)

section \<open>Properties of the artifact hooks\<close>

text \<open>
  C1.  Each of the five hooks returns at once, with the test case, its report directory
  and its details as they were, when the class recorded in \<open>exc_info\<close> is named
  \<open>SkipTest\<close>, and runs its attachment body for every other class.
\<close>

theorem hooks_ignore_skip:
  "attach_page_source w self exc_info =
     (if cls_name (fst exc_info) = ''SkipTest'' then (self, Inr ())
      else attach_page_source_body w self exc_info)
   \<and> attach_screenshot w self exc_info =
     (if cls_name (fst exc_info) = ''SkipTest'' then (self, Inr ())
      else attach_screenshot_body w self exc_info)
   \<and> attach_video w self exc_info =
     (if cls_name (fst exc_info) = ''SkipTest'' then (self, Inr ())
      else attach_video_body w self exc_info)
   \<and> attach_browser_log w self exc_info =
     (if cls_name (fst exc_info) = ''SkipTest'' then (self, Inr ())
      else attach_browser_log_body w self exc_info)
   \<and> attach_test_log w self exc_info =
     (if cls_name (fst exc_info) = ''SkipTest'' then (self, Inr ())
      else attach_test_log_body w self exc_info)"
  by (simp add: attach_page_source_def attach_screenshot_def attach_video_def
      attach_browser_log_def attach_test_log_def ignore_skip_def)

lemma attach_page_source_body_quiet:
  "attach_page_source_body quiet_world running_testcase failure_info =
     (running_testcase\<lparr>tc_report_dir := True,
        tc_files := [''page.html'' \<mapsto> ''<body></body>'']\<rparr>, Inr ())"
  by (simp add: attach_page_source_body_def exc_bind_def test_report_dir_def log_exception_def
      open_w_def produce_def file_write_def quiet_world_def running_testcase_def testcase0_def)

text \<open>On a skip nothing is attached; on a failed assertion the page source is.\<close>

theorem hooks_ignore_skip_witness:
  "attach_page_source quiet_world running_testcase skip_info = (running_testcase, Inr ())
   \<and> attach_page_source quiet_world running_testcase failure_info =
     (running_testcase\<lparr>tc_report_dir := True,
        tc_files := [''page.html'' \<mapsto> ''<body></body>'']\<rparr>, Inr ())"
proof -
  have "attach_page_source quiet_world running_testcase skip_info =
     (if cls_name (fst skip_info) = ''SkipTest'' then (running_testcase, Inr ())
      else attach_page_source_body quiet_world running_testcase skip_info)"
    using hooks_ignore_skip[of quiet_world running_testcase skip_info] by (rule conjunct1)
  also have "\<dots> = (running_testcase, Inr ())"
    by (simp add: skip_info_def SkipTest_def)
  finally have skipped: "attach_page_source quiet_world running_testcase skip_info =
     (running_testcase, Inr ())" .
  have "attach_page_source quiet_world running_testcase failure_info =
     (if cls_name (fst failure_info) = ''SkipTest'' then (running_testcase, Inr ())
      else attach_page_source_body quiet_world running_testcase failure_info)"
    using hooks_ignore_skip[of quiet_world running_testcase failure_info] by (rule conjunct1)
  also have "\<dots> = attach_page_source_body quiet_world running_testcase failure_info"
    by (simp add: failure_info_def AssertionError_def)
  finally have "attach_page_source quiet_world running_testcase failure_info =
     (running_testcase\<lparr>tc_report_dir := True,
        tc_files := [''page.html'' \<mapsto> ''<body></body>'']\<rparr>, Inr ())"
    by (simp only: attach_page_source_body_quiet)
  with skipped show ?thesis by (rule conjI)
qed

lemma log_exception_passes:
  "snd (body s) = Inl e \<Longrightarrow> \<not> is_Exception (exn_cls e) \<Longrightarrow>
   log_exception w label body s = (fst (body s), Inl e)"
  by (cases "body s") (simp add: log_exception_def)

lemma log_exception_normal:
  "snd (body s) = Inr u \<Longrightarrow> log_exception w label body s = (fst (body s), Inr ())"
  by (cases "body s") (simp add: log_exception_def)

text \<open>
  C2, as the code has it.  \<open>log_exception\<close> handles \<open>except Exception\<close>: when the
  operation inside it raises an instance of \<open>Exception\<close>, the block ends normally and the
  formatted traceback is attached as the detail of that label, so that exception does
  not leave the hook; an exception that is not an instance of \<open>Exception\<close> leaves the
  block as it came, with no detail attached.
\<close>

theorem log_exception_catches_Exception:
  "snd (body s) = Inl e \<Longrightarrow>
   log_exception w label body s =
     (if is_Exception (exn_cls e)
      then (addDetail label (w_format_exc w e) (fst (body s)), Inr ())
      else (fst (body s), Inl e))"
  by (cases "body s") (simp add: log_exception_def)

lemma attach_video_inner_failing:
  "exc_bind (VideoRecorder_stop failing_copy_world) (\<lambda>_.
     exc_bind (test_report_dir failing_copy_world) (\<lambda>_.
     exc_bind (produce (w_copyfile failing_copy_world)) (\<lambda>mp4.
     file_write ''video.mp4'' mp4))) running_testcase =
   (running_testcase\<lparr>tc_trace := [RecorderStop], tc_launched := False, tc_report_dir := True\<rparr>,
    Inl (Exn IOError ''no space left''))"
  by (simp add: exc_bind_def VideoRecorder_stop_def call_def test_report_dir_def produce_def
      failing_copy_world_def quiet_world_def running_testcase_def testcase0_def)

text \<open>The copy of the video fails with an \<open>IOError\<close>: the hook returns normally and the
  error is a detail of the test.\<close>

theorem log_exception_catches_Exception_witness:
  "attach_video failing_copy_world running_testcase failure_info =
     (running_testcase\<lparr>tc_trace := [RecorderStop], tc_launched := False, tc_report_dir := True,
        tc_details := [''Attach video'' \<mapsto> ''no space left'']\<rparr>, Inr ())"
proof -
  let ?body = "exc_bind (VideoRecorder_stop failing_copy_world) (\<lambda>_.
           exc_bind (test_report_dir failing_copy_world) (\<lambda>_.
           exc_bind (produce (w_copyfile failing_copy_world)) (\<lambda>mp4.
           file_write ''video.mp4'' mp4)))"
  have raised: "snd (?body running_testcase) = Inl (Exn IOError ''no space left'')"
    by (simp only: attach_video_inner_failing snd_conv)
  have is_exc: "is_Exception (exn_cls (Exn IOError ''no space left''))"
    by (simp add: IOError_def)
  have "attach_video failing_copy_world running_testcase failure_info =
      log_exception failing_copy_world ''Attach video'' ?body running_testcase"
    by (simp add: attach_video_def attach_video_body_def ignore_skip_def failure_info_def
        AssertionError_def)
  also have "\<dots> =
      (if is_Exception (exn_cls (Exn IOError ''no space left''))
       then (addDetail ''Attach video''
          (w_format_exc failing_copy_world (Exn IOError ''no space left''))
          (fst (?body running_testcase)), Inr ())
       else (fst (?body running_testcase), Inl (Exn IOError ''no space left'')))"
    using raised by (rule log_exception_catches_Exception)
  also have "\<dots> = (addDetail ''Attach video''
        (w_format_exc failing_copy_world (Exn IOError ''no space left''))
        (fst (?body running_testcase)), Inr ())"
    using is_exc by (simp only: if_True)
  also have "\<dots> = (running_testcase\<lparr>tc_trace := [RecorderStop], tc_launched := False,
        tc_report_dir := True, tc_details := [''Attach video'' \<mapsto> ''no space left'']\<rparr>, Inr ())"
    by (simp only: attach_video_inner_failing fst_conv)
      (simp add: addDetail_def failing_copy_world_def quiet_world_def
        running_testcase_def testcase0_def)
  finally show ?thesis .
qed

text \<open>The copy of the video is interrupted from the keyboard: the exception leaves the
  hook, and no detail is attached.\<close>

theorem log_exception_KeyboardInterrupt_propagates:
  "attach_video interrupted_world running_testcase failure_info =
     (running_testcase\<lparr>tc_trace := [RecorderStop], tc_launched := False, tc_report_dir := True\<rparr>,
      Inl (Exn KeyboardInterrupt ''^C''))"
  by (simp add: attach_video_def attach_video_body_def ignore_skip_def log_exception_def
      exc_bind_def VideoRecorder_stop_def call_def test_report_dir_def produce_def
      failure_info_def AssertionError_def KeyboardInterrupt_def
      interrupted_world_def quiet_world_def running_testcase_def testcase0_def)

text \<open>In four of the hooks the report directory is made before the \<open>with\<close> block is
  entered, so a failure to make it is not logged: it leaves the hook.\<close>

lemma attach_page_source_makedirs_raises:
  "attach_page_source (quiet_world\<lparr>w_makedirs := Some (Exn OSError ''read-only'')\<rparr>)
     running_testcase failure_info =
   (running_testcase, Inl (Exn OSError ''read-only''))"
  by (simp add: attach_page_source_def ignore_skip_def attach_page_source_body_def exc_bind_def
      test_report_dir_def failure_info_def AssertionError_def quiet_world_def
      running_testcase_def testcase0_def)

section \<open>Properties of the page objects\<close>

subsection \<open>Table properties\<close>

lemma new_region_twice:
  "access_twice (\<lambda>self. new_region c (pg_driver self) (pg_conf self)) self h =
     (length h, Suc (length h),
      h @ [\<lparr>ro_cls = c, ro_driver = pg_driver self, ro_conf = pg_conf self\<rparr>,
           \<lparr>ro_cls = c, ro_driver = pg_driver self, ro_conf = pg_conf self\<rparr>])"
  by (simp add: access_twice_def new_region_def)

lemma fresh_twice:
  "(case (length h, Suc (length h), h @ [x, x]) of
      (a1, a2, h2) \<Rightarrow>
        a1 \<noteq> a2 \<and> length h \<le> a1 \<and> length h \<le> a2 \<and> a1 < length h2 \<and> a2 < length h2
        \<and> take (length h) h2 = h \<and> h2 ! a1 = x \<and> h2 ! a2 = x)"
  by (simp add: nth_append)

text \<open>
  C5.  Every access to \<open>users_table\<close>, \<open>volumes_table\<close> or \<open>apiaccess_table\<close>
  constructs a region from the page's driver and configuration: two successive accesses
  return two different objects, neither of which existed before the first access, both
  of the table's class and both holding the page's driver and configuration; the objects
  that existed before are left as they were.
\<close>

theorem table_property_fresh_region:
  "(case access_twice users_table self h of
      (a1, a2, h2) \<Rightarrow>
        a1 \<noteq> a2 \<and> length h \<le> a1 \<and> length h \<le> a2 \<and> a1 < length h2 \<and> a2 < length h2
        \<and> take (length h) h2 = h
        \<and> h2 ! a1 = \<lparr>ro_cls = UsersTable, ro_driver = pg_driver self, ro_conf = pg_conf self\<rparr>
        \<and> h2 ! a2 = \<lparr>ro_cls = UsersTable, ro_driver = pg_driver self, ro_conf = pg_conf self\<rparr>)
   \<and> (case access_twice volumes_table self h of
      (a1, a2, h2) \<Rightarrow>
        a1 \<noteq> a2 \<and> length h \<le> a1 \<and> length h \<le> a2 \<and> a1 < length h2 \<and> a2 < length h2
        \<and> take (length h) h2 = h
        \<and> h2 ! a1 = \<lparr>ro_cls = VolumesTable, ro_driver = pg_driver self, ro_conf = pg_conf self\<rparr>
        \<and> h2 ! a2 = \<lparr>ro_cls = VolumesTable, ro_driver = pg_driver self, ro_conf = pg_conf self\<rparr>)
   \<and> (case access_twice apiaccess_table self h of
      (a1, a2, h2) \<Rightarrow>
        a1 \<noteq> a2 \<and> length h \<le> a1 \<and> length h \<le> a2 \<and> a1 < length h2 \<and> a2 < length h2
        \<and> take (length h) h2 = h
        \<and> h2 ! a1 = \<lparr>ro_cls = ApiAccessTable, ro_driver = pg_driver self, ro_conf = pg_conf self\<rparr>
        \<and> h2 ! a2 = \<lparr>ro_cls = ApiAccessTable, ro_driver = pg_driver self, ro_conf = pg_conf self\<rparr>)"
proof -
  have u: "users_table = (\<lambda>self. new_region UsersTable (pg_driver self) (pg_conf self))"
    by (rule ext) (simp add: users_table_def)
  have v: "volumes_table = (\<lambda>self. new_region VolumesTable (pg_driver self) (pg_conf self))"
    by (rule ext) (simp add: volumes_table_def)
  have a: "apiaccess_table = (\<lambda>self. new_region ApiAccessTable (pg_driver self) (pg_conf self))"
    by (rule ext) (simp add: apiaccess_table_def)
  show ?thesis
    unfolding u v a new_region_twice
    by (intro conjI fresh_twice)
qed

text \<open>Two accesses on a store that holds one region already.\<close>

theorem table_property_fresh_region_witness:
  "access_twice users_table page0 [\<lparr>ro_cls = VolumesTable, ro_driver = 0, ro_conf = 1\<rparr>] =
     (1, 2, [\<lparr>ro_cls = VolumesTable, ro_driver = 0, ro_conf = 1\<rparr>,
             \<lparr>ro_cls = UsersTable, ro_driver = 0, ro_conf = 1\<rparr>,
             \<lparr>ro_cls = UsersTable, ro_driver = 0, ro_conf = 1\<rparr>])
   \<and> (1 :: nat) \<noteq> 2"
proof -
  have e: "access_twice users_table page0 [\<lparr>ro_cls = VolumesTable, ro_driver = 0, ro_conf = 1\<rparr>] =
     (1, 2, [\<lparr>ro_cls = VolumesTable, ro_driver = 0, ro_conf = 1\<rparr>,
             \<lparr>ro_cls = UsersTable, ro_driver = 0, ro_conf = 1\<rparr>,
             \<lparr>ro_cls = UsersTable, ro_driver = 0, ro_conf = 1\<rparr>])"
    by (simp add: access_twice_def users_table_def new_region_def page0_def)
  have "(1 :: nat) \<noteq> 2"
    using table_property_fresh_region
      [where self = page0 and h = "[\<lparr>ro_cls = VolumesTable, ro_driver = 0, ro_conf = 1\<rparr>]"]
    unfolding e by simp
  with e show ?thesis by (rule conjI)
qed

subsection \<open>Row lookup\<close>

lemma get_row_Some:
  "get_row rows column shown = Some r \<Longrightarrow> r \<in> set (matching_rows rows column shown)"
  by (induction rows) (auto simp: get_row_def matching_rows_def split: if_splits)

lemma get_row_None:
  "get_row rows column shown = None \<longleftrightarrow> matching_rows rows column shown = []"
  by (induction rows) (auto simp: get_row_def matching_rows_def split: if_splits)

lemma get_row_cases:
  "(case get_row rows column shown of
      None \<Rightarrow> matching_rows rows column shown = []
    | Some r \<Rightarrow> r \<in> set (matching_rows rows column shown))"
proof (cases "get_row rows column shown")
  case None
  then show ?thesis by (simp add: get_row_None[symmetric])
next
  case (Some r)
  then show ?thesis by (simp add: get_row_Some)
qed

lemma py_bool_get_row:
  "py_bool (get_row rows column shown) \<longleftrightarrow> (\<exists>r\<in>set rows. cell_text r column = Some shown)"
  by (auto simp: py_bool_def get_row_def find_None_iff)

text \<open>
  C4.  The row lookup of the users page and of the volumes page searches the rendered
  table by the text displayed in the \<open>name\<close> column: \<open>is_user_present\<close> and
  \<open>is_volume_present\<close> are true exactly when at least one rendered row displays the
  name there.  The lookup returns one of the rows that display the name, whatever their
  number: no row is returned only when none matches, and nothing is checked about a
  second match.
\<close>

theorem row_lookup_by_displayed_name:
  "is_user_present rendered name = (\<exists>r\<in>set rendered. cell_text r ''name'' = Some name)
   \<and> is_volume_present rendered name = (\<exists>r\<in>set rendered. cell_text r ''name'' = Some name)
   \<and> (case get_row_with_user_name rendered name of
         None \<Rightarrow> matching_rows rendered ''name'' name = []
       | Some r \<Rightarrow> r \<in> set (matching_rows rendered ''name'' name))
   \<and> (case get_row_with_volume_name rendered name of
         None \<Rightarrow> matching_rows rendered ''name'' name = []
       | Some r \<Rightarrow> r \<in> set (matching_rows rendered ''name'' name))"
  unfolding is_user_present_def is_volume_present_def get_row_with_user_name_def
    get_row_with_volume_name_def USERS_TABLE_NAME_COLUMN_def VOLUMES_TABLE_NAME_COLUMN_def
  by (intro conjI py_bool_get_row get_row_cases)

text \<open>Two rows display \<open>demo\<close>: the user is present, and the lookup returns one of the
  two rows without complaint.\<close>

theorem row_lookup_by_displayed_name_witness:
  "is_user_present duplicate_rows ''demo''
   \<and> length (matching_rows duplicate_rows ''name'' ''demo'') = 2
   \<and> (\<exists>r. get_row_with_user_name duplicate_rows ''demo'' = Some r
          \<and> r \<in> set (matching_rows duplicate_rows ''name'' ''demo''))
   \<and> \<not> is_user_present duplicate_rows ''nobody''"
proof -
  have m: "matching_rows duplicate_rows ''name'' ''demo'' =
      [[(''name'', ''demo''), (''enabled'', ''Yes'')], [(''name'', ''demo''), (''enabled'', ''No'')]]"
    by (simp add: matching_rows_def duplicate_rows_def cell_text_def)
  have g: "get_row_with_user_name duplicate_rows ''demo'' =
      Some [(''name'', ''demo''), (''enabled'', ''Yes'')]"
    by (simp add: get_row_with_user_name_def get_row_def USERS_TABLE_NAME_COLUMN_def
        duplicate_rows_def cell_text_def)
  note t = row_lookup_by_displayed_name[where rendered = duplicate_rows and name = "''demo''"]
  have p: "is_user_present duplicate_rows ''demo''"
    using t by (simp add: duplicate_rows_def cell_text_def)
  have r: "\<exists>r. get_row_with_user_name duplicate_rows ''demo'' = Some r
          \<and> r \<in> set (matching_rows duplicate_rows ''name'' ''demo'')"
    using t unfolding g by simp
  have n: "\<not> is_user_present duplicate_rows ''nobody''"
    using row_lookup_by_displayed_name[where rendered = duplicate_rows and name = "''nobody''"]
    by (simp add: duplicate_rows_def cell_text_def)
  from p m r n show ?thesis by simp
qed

subsection \<open>Polling\<close>

declare wait_until.simps [simp del]

lemma wait_until_true: "cond t \<Longrightarrow> wait_until cond timeout t = ([t], Inr ())"
  by (subst wait_until.simps) simp

lemma wait_until_expired:
  "\<not> cond t \<Longrightarrow> timeout \<le> t \<Longrightarrow> wait_until cond timeout t = ([t], Inl timeout_exn)"
  by (subst wait_until.simps) simp

lemma wait_until_step:
  "\<not> cond t \<Longrightarrow> t < timeout \<Longrightarrow>
   wait_until cond timeout t =
     (t # fst (wait_until cond timeout (Suc t)), snd (wait_until cond timeout (Suc t)))"
  by (subst wait_until.simps) (simp add: split_beta)

lemma wait_until_outcome:
  "snd (wait_until cond timeout t) =
     (if \<exists>k. t \<le> k \<and> k \<le> max t timeout \<and> cond k then Inr () else Inl timeout_exn)"
proof (induction cond timeout t rule: wait_until.induct)
  case (1 cond timeout t)
  show ?case
  proof (cases "cond t")
    case True
    then have "\<exists>k. t \<le> k \<and> k \<le> max t timeout \<and> cond k" by (intro exI[of _ t]) simp
    with True show ?thesis by (simp add: wait_until_true)
  next
    case False
    show ?thesis
    proof (cases "timeout \<le> t")
      case True
      then have "\<not> (\<exists>k. t \<le> k \<and> k \<le> max t timeout \<and> cond k)"
        using False by (auto simp: max_def)
      with False True show ?thesis by (simp add: wait_until_expired)
    next
      case f2: False
      have "(\<exists>k. t \<le> k \<and> k \<le> max t timeout \<and> cond k) = (\<exists>k. Suc t \<le> k \<and> k \<le> max (Suc t) timeout \<and> cond k)"
      proof
        assume "\<exists>k. t \<le> k \<and> k \<le> max t timeout \<and> cond k"
        then obtain k where k: "t \<le> k" "k \<le> max t timeout" "cond k" by blast
        with False have "k \<noteq> t" by auto
        with k f2 have "Suc t \<le> k \<and> k \<le> max (Suc t) timeout \<and> cond k" by (auto simp: max_def)
        then show "\<exists>k. Suc t \<le> k \<and> k \<le> max (Suc t) timeout \<and> cond k" ..
      next
        assume "\<exists>k. Suc t \<le> k \<and> k \<le> max (Suc t) timeout \<and> cond k"
        then obtain k where k: "Suc t \<le> k" "k \<le> max (Suc t) timeout" "cond k" by blast
        with f2 have "t \<le> k \<and> k \<le> max t timeout \<and> cond k" by (auto simp: max_def)
        then show "\<exists>k. t \<le> k \<and> k \<le> max t timeout \<and> cond k" ..
      qed
      moreover have "snd (wait_until cond timeout t) = snd (wait_until cond timeout (Suc t))"
        using False f2 by (simp add: wait_until_step)
      ultimately show ?thesis using "1.IH"[OF False f2] by simp
    qed
  qed
qed

lemma wait_until_times:
  "fst (wait_until cond timeout t) = [t ..< t + length (fst (wait_until cond timeout t))]
   \<and> length (fst (wait_until cond timeout t)) \<le> Suc (timeout - t)
   \<and> fst (wait_until cond timeout t) \<noteq> []"
proof (induction cond timeout t rule: wait_until.induct)
  case (1 cond timeout t)
  show ?case
  proof (cases "cond t \<or> timeout \<le> t")
    case True
    then show ?thesis by (cases "cond t") (simp_all add: wait_until_true wait_until_expired)
  next
    case False
    define ts where "ts = fst (wait_until cond timeout (Suc t))"
    from False have st: "fst (wait_until cond timeout t) = t # ts"
      by (simp add: wait_until_step ts_def)
    from False "1.IH" have ih: "ts = [Suc t ..< Suc t + length ts]" "length ts \<le> Suc (timeout - Suc t)"
      by (simp_all add: ts_def)
    have "[t ..< Suc (t + length ts)] = t # [Suc t ..< Suc (t + length ts)]"
      by (rule upt_conv_Cons) simp
    also have "[Suc t ..< Suc (t + length ts)] = ts"
      using ih(1) by simp
    finally have "fst (wait_until cond timeout t) = [t ..< t + length (fst (wait_until cond timeout t))]"
      by (simp only: st length_Cons add_Suc_right)
    moreover have "length (fst (wait_until cond timeout t)) \<le> Suc (timeout - t)"
      using False ih(2) by (simp only: st length_Cons) arith
    moreover have "fst (wait_until cond timeout t) \<noteq> []"
      by (simp only: st) simp
    ultimately show ?thesis by blast
  qed
qed

lemma wait_until_earlier_false:
  "k \<in> set (butlast (fst (wait_until cond timeout t))) \<Longrightarrow> \<not> cond k"
proof (induction cond timeout t rule: wait_until.induct)
  case (1 cond timeout t)
  show ?case
  proof (cases "cond t \<or> timeout \<le> t")
    case True
    with "1.prems" show ?thesis
      by (cases "cond t") (simp_all add: wait_until_true wait_until_expired)
  next
    case False
    define ts where "ts = fst (wait_until cond timeout (Suc t))"
    from False have st: "fst (wait_until cond timeout t) = t # ts"
      by (simp add: wait_until_step ts_def)
    have ne: "ts \<noteq> []" using wait_until_times[of cond timeout "Suc t"] by (simp add: ts_def)
    from st ne "1.prems" have "k = t \<or> k \<in> set (butlast ts)" by simp
    then show ?thesis
    proof
      assume "k = t" with False show ?thesis by simp
    next
      assume "k \<in> set (butlast ts)"
      with "1.IH" False show ?thesis by (simp add: ts_def)
    qed
  qed
qed

lemma wait_until_last_true:
  "snd (wait_until cond timeout t) = Inr () \<Longrightarrow> cond (last (fst (wait_until cond timeout t)))"
proof (induction cond timeout t rule: wait_until.induct)
  case (1 cond timeout t)
  show ?case
  proof (cases "cond t \<or> timeout \<le> t")
    case True
    with "1.prems" show ?thesis
      by (cases "cond t") (simp_all add: wait_until_true wait_until_expired)
  next
    case False
    define ts where "ts = fst (wait_until cond timeout (Suc t))"
    from False have st: "wait_until cond timeout t = (t # ts, snd (wait_until cond timeout (Suc t)))"
      by (simp add: wait_until_step ts_def)
    have ne: "ts \<noteq> []" using wait_until_times[of cond timeout "Suc t"] by (simp add: ts_def)
    from st "1.prems" have "snd (wait_until cond timeout (Suc t)) = Inr ()" by simp
    with "1.IH" False have "cond (last ts)" by (simp add: ts_def)
    with st ne show ?thesis by simp
  qed
qed

lemma wait_until_outcome_0:
  "snd (wait_until cond timeout 0) =
     (if \<exists>k\<le>timeout. cond k then Inr () else Inl timeout_exn)"
  using wait_until_outcome[of cond timeout 0] by simp

lemma is_volume_deleted_outcome:
  "is_volume_deleted rendered timeout name =
     (if \<exists>k\<le>timeout. get_row_with_volume_name (rendered k) name = None
      then Inr True else Inl timeout_exn)"
  by (simp add: is_volume_deleted_def is_row_deleted_def wait_until_outcome_0)

lemma is_volume_status_outcome:
  "is_volume_status rendered timeout name status =
     (if \<exists>k\<le>timeout. cell_getter rendered name k = Some status
      then Inr True else Inl timeout_exn)"
  by (simp add: is_volume_status_def wait_cell_status_def wait_until_outcome_0)

text \<open>
  C3.  The polling helper evaluates the condition at the successive polling times
  \<open>0, 1, 2, \<dots>\<close> and at no other; it returns to its caller at the first time the
  condition is truthy, provided that time is within the timeout, and raises the timeout
  condition once the timeout has elapsed with the condition never truthy.  It evaluates
  the condition at least once and at most \<open>timeout + 1\<close> times, so it always ends, and
  nothing else decides its outcome.  The same holds for the row and cell polls built on
  it.
\<close>

theorem wait_until_bounded_polling:
  "snd (wait_until cond timeout 0) =
     (if \<exists>k\<le>timeout. cond k then Inr () else Inl timeout_exn)
   \<and> fst (wait_until cond timeout 0) = [0 ..< length (fst (wait_until cond timeout 0))]
   \<and> 1 \<le> length (fst (wait_until cond timeout 0))
   \<and> length (fst (wait_until cond timeout 0)) \<le> Suc timeout
   \<and> (\<forall>k \<in> set (butlast (fst (wait_until cond timeout 0))). \<not> cond k)
   \<and> (snd (wait_until cond timeout 0) = Inr () \<longrightarrow>
        cond (last (fst (wait_until cond timeout 0))))
   \<and> is_row_deleted row_getter timeout =
        (if \<exists>k\<le>timeout. row_getter k = None then Inr True else Inl timeout_exn)
   \<and> wait_cell_status getter status timeout =
        (if \<exists>k\<le>timeout. getter k = Some status then Inr True else Inl timeout_exn)"
proof -
  note t = wait_until_times[of cond timeout 0]
  have a: "fst (wait_until cond timeout 0) = [0 ..< length (fst (wait_until cond timeout 0))]"
    using t by simp
  have b: "1 \<le> length (fst (wait_until cond timeout 0))"
    using t by (cases "fst (wait_until cond timeout 0)") simp_all
  have c: "length (fst (wait_until cond timeout 0)) \<le> Suc timeout"
    using t by simp
  have d: "\<forall>k \<in> set (butlast (fst (wait_until cond timeout 0))). \<not> cond k"
    using wait_until_earlier_false[of _ cond timeout 0] by blast
  have e: "snd (wait_until cond timeout 0) = Inr () \<longrightarrow>
        cond (last (fst (wait_until cond timeout 0)))"
    using wait_until_last_true[of cond timeout 0] by blast
  have f: "is_row_deleted row_getter timeout =
        (if \<exists>k\<le>timeout. row_getter k = None then Inr True else Inl timeout_exn)"
    by (simp add: is_row_deleted_def wait_until_outcome_0)
  have g: "wait_cell_status getter status timeout =
        (if \<exists>k\<le>timeout. getter k = Some status then Inr True else Inl timeout_exn)"
    by (simp add: wait_cell_status_def wait_until_outcome_0)
  from wait_until_outcome_0 a b c d e f g show ?thesis by blast
qed

lemma wait_until_downloads:
  "wait_until (\<lambda>t. list_of_files (downloads t) ''-openrc.sh'' \<noteq> []) 5 0 = ([0, 1, 2], Inr ())"
proof -
  have c: "\<And>t. (list_of_files (downloads t) ''-openrc.sh'' \<noteq> []) = (2 \<le> t)"
    by (simp add: list_of_files_def downloads_def endswith_def)
  show ?thesis
    unfolding c
    by (simp add: wait_until.simps[of _ _ 0] wait_until.simps[of _ _ "Suc 0"]
        wait_until.simps[of _ _ "Suc (Suc 0)"])
qed

text \<open>The file appears at time 2: with a timeout of 5 the wait polls at 0, 1 and 2 and
  returns; with a timeout of 1 it raises the timeout.\<close>

theorem wait_until_bounded_polling_witness:
  "wait_until (\<lambda>t. list_of_files (downloads t) ''-openrc.sh'' \<noteq> []) 5 0 = ([0, 1, 2], Inr ())
   \<and> list_of_files (downloads 2) ''-openrc.sh'' \<noteq> []
   \<and> snd (wait_until (\<lambda>t. list_of_files (downloads t) ''-openrc.sh'' \<noteq> []) 1 0) =
       Inl timeout_exn"
proof -
  let ?cond = "\<lambda>t. list_of_files (downloads t) ''-openrc.sh'' \<noteq> []"
  have c: "\<And>t. ?cond t = (2 \<le> t)"
    by (simp add: list_of_files_def downloads_def endswith_def)
  note five = wait_until_bounded_polling[where cond = ?cond and timeout = 5]
  have "snd (wait_until ?cond 5 0) = Inr ()"
    by (simp only: wait_until_downloads snd_conv)
  with five have "?cond (last (fst (wait_until ?cond 5 0)))" by blast
  then have found: "?cond 2"
    by (simp only: wait_until_downloads fst_conv) simp
  have "\<not> (\<exists>k\<le>1. ?cond k)"
    unfolding c by simp
  with wait_until_bounded_polling[where cond = ?cond and timeout = 1]
  have expired: "snd (wait_until ?cond 1 0) = Inl timeout_exn"
    by simp
  from wait_until_downloads found expired show ?thesis by blast
qed

section \<open>Properties of the fixture\<close>

subsection \<open>setUp\<close>

lemma setUp_skip:
  "\<not> environ_get_truthy env ''INTEGRATION_TESTS'' \<Longrightarrow>
   BaseTestCase_setUp env mb w s = (configure_log s, Inl (Exn SkipTest skip_msg))"
  by (simp add: BaseTestCase_setUp_def)

lemma setUp_skip_calls:
  "\<not> environ_get_truthy env ''INTEGRATION_TESTS'' \<Longrightarrow>
   calls_made s (BaseTestCase_setUp env mb w s) = [ConfigureLog]"
  by (simp add: setUp_skip calls_made_def configure_log_def)

lemma setUp_xvfb:
  "XvfbStart \<in> set (calls_made s (BaseTestCase_setUp env mb w s)) \<longleftrightarrow>
     environ_get_truthy env ''INTEGRATION_TESTS'' \<and> environ_get_truthy env ''SELENIUM_HEADLESS''"
  by (simp add: BaseTestCase_setUp_def calls_made_def exc_bind_def call_def start_vdisplay_def
      start_driver_def VideoRecorder_start_def add_hooks_def configure_log_def exc_return_def
      Let_def split: option.splits)

lemma environ_get_truthy_iff:
  "environ_get_truthy env var \<longleftrightarrow> (\<exists>v. env var = Some v \<and> v \<noteq> [])"
  by (simp add: environ_get_truthy_def split: option.splits)

text \<open>
  C7, as the code has it.  A variable counts as set when \<open>os.environ.get\<close> gives a
  non-empty string.  When \<open>INTEGRATION_TESTS\<close> is unset or empty, \<open>setUp\<close> configures
  the log and raises the skip exception, having called neither the virtual display nor
  the browser driver.  The virtual display is started exactly when both
  \<open>INTEGRATION_TESTS\<close> and \<open>SELENIUM_HEADLESS\<close> are set to non-empty strings.
\<close>

theorem setUp_gated_by_environment:
  "(environ_get_truthy env var \<longleftrightarrow> (\<exists>v. env var = Some v \<and> v \<noteq> []))
   \<and> (\<not> environ_get_truthy env ''INTEGRATION_TESTS'' \<longrightarrow>
        BaseTestCase_setUp env mb w s = (configure_log s, Inl (Exn SkipTest skip_msg))
        \<and> calls_made s (BaseTestCase_setUp env mb w s) = [ConfigureLog])
   \<and> (XvfbStart \<in> set (calls_made s (BaseTestCase_setUp env mb w s)) \<longleftrightarrow>
        environ_get_truthy env ''INTEGRATION_TESTS'' \<and>
        environ_get_truthy env ''SELENIUM_HEADLESS'')"
  using environ_get_truthy_iff[of env var] setUp_skip[of env mb w s]
    setUp_skip_calls[of env s mb w] setUp_xvfb[of s env mb w]
  by blast

text \<open>\<open>SELENIUM_HEADLESS\<close> is set and \<open>INTEGRATION_TESTS\<close> is not: the test is skipped
  and no display is started.\<close>

theorem setUp_gated_by_environment_witness:
  "\<not> environ_get_truthy env_only_headless ''INTEGRATION_TESTS''
   \<and> BaseTestCase_setUp env_only_headless True quiet_world testcase0 =
       (configure_log testcase0, Inl (Exn SkipTest skip_msg))
   \<and> calls_made testcase0 (BaseTestCase_setUp env_only_headless True quiet_world testcase0) =
       [ConfigureLog]"
proof -
  have off: "\<not> environ_get_truthy env_only_headless ''INTEGRATION_TESTS''"
    by (simp add: environ_get_truthy_def env_only_headless_def)
  with setUp_gated_by_environment
    [where env = env_only_headless and mb = True and w = quiet_world and s = testcase0]
  show ?thesis by blast
qed

text \<open>\<open>SELENIUM_HEADLESS\<close> is set, to the empty string, and the tests are switched on:
  \<open>setUp\<close> passes and starts the browser, and no virtual display.\<close>

theorem setUp_empty_headless_no_display:
  "env_headless_empty ''SELENIUM_HEADLESS'' = Some []
   \<and> calls_made testcase0 (BaseTestCase_setUp env_headless_empty True quiet_world testcase0) =
       [ConfigureLog, DriverStart, MaximizeWindow, ImplicitlyWait, SetPageLoadTimeout,
        RecorderInit, RecorderStart, SuperSetUp]
   \<and> snd (BaseTestCase_setUp env_headless_empty True quiet_world testcase0) = Inr ()
   \<and> XvfbStart \<notin> set (calls_made testcase0
        (BaseTestCase_setUp env_headless_empty True quiet_world testcase0))"
  by (simp add: BaseTestCase_setUp_def calls_made_def exc_bind_def call_def start_vdisplay_def
      start_driver_def VideoRecorder_start_def add_hooks_def configure_log_def exc_return_def
      Let_def environ_get_truthy_def env_headless_empty_def quiet_world_def testcase0_def)

subsection \<open>tearDown\<close>

lemma base_tearDown_calls:
  "calls_made s (BaseTestCase_tearDown env w s) =
     (if tc_launched s then [RecorderStop] else []) @
     (if tc_launched s \<and> w_raises w RecorderStop \<noteq> None then []
      else (if environ_get_truthy env ''INTEGRATION_TESTS'' then [DriverQuit] else []) @
        (if environ_get_truthy env ''INTEGRATION_TESTS'' \<and> w_raises w DriverQuit \<noteq> None then []
         else (if tc_vdisplay s then [XvfbStop] else []) @
           (if tc_vdisplay s \<and> w_raises w XvfbStop \<noteq> None then [] else [SuperTearDown])))"
  by (simp add: BaseTestCase_tearDown_def calls_made_def exc_bind_def call_def
      VideoRecorder_stop_def exc_return_def split: option.splits)

lemma log_out_step_calls:
  "calls_made s (log_out_step w s) =
     IsLoggedIn #
     (if w_raises w IsLoggedIn = None \<and> w_is_logged_in w
      then GoToHomePage # (if w_raises w GoToHomePage = None then [LogOut] else [])
      else [])"
  by (simp add: log_out_step_def is_logged_in_def calls_made_def exc_bind_def call_def
      exc_return_def split: option.splits)

lemma log_out_step_keeps:
  "tc_launched (fst (log_out_step w s)) = tc_launched s
   \<and> tc_vdisplay (fst (log_out_step w s)) = tc_vdisplay s
   \<and> length (tc_trace s) \<le> length (tc_trace (fst (log_out_step w s)))
   \<and> take (length (tc_trace s)) (tc_trace (fst (log_out_step w s))) = tc_trace s"
  by (simp add: log_out_step_def is_logged_in_def exc_bind_def call_def
      exc_return_def split: option.splits)

lemma base_tearDown_keeps:
  "length (tc_trace s) \<le> length (tc_trace (fst (BaseTestCase_tearDown env w s)))"
  by (simp add: BaseTestCase_tearDown_def exc_bind_def call_def
      VideoRecorder_stop_def exc_return_def split: option.splits)

lemma try_finally_fst:
  "fst (try_finally body fin s) = fst (fin (fst (body s)))"
  by (simp add: try_finally_def split: prod.splits sum.splits)

lemma tearDown_calls:
  "calls_made s (TestCase_tearDown env w s) =
     calls_made s (log_out_step w s) @
     calls_made (fst (log_out_step w s)) (BaseTestCase_tearDown env w (fst (log_out_step w s)))"
proof -
  define s1 where "s1 = fst (log_out_step w s)"
  define s2 where "s2 = fst (BaseTestCase_tearDown env w s1)"
  have a: "length (tc_trace s) \<le> length (tc_trace s1)"
    and b: "take (length (tc_trace s)) (tc_trace s1) = tc_trace s"
    using log_out_step_keeps[of w s] by (simp_all add: s1_def)
  have c: "length (tc_trace s1) \<le> length (tc_trace s2)"
    using base_tearDown_keeps[of s1 env w] by (simp add: s2_def)
  have d: "take (length (tc_trace s1)) (tc_trace s2) = tc_trace s1"
    unfolding s2_def
    by (simp add: BaseTestCase_tearDown_def exc_bind_def call_def
      VideoRecorder_stop_def exc_return_def split: option.splits)
  have "tc_trace s2 = tc_trace s1 @ drop (length (tc_trace s1)) (tc_trace s2)"
    using d by (metis append_take_drop_id)
  then have "drop (length (tc_trace s)) (tc_trace s2) =
      drop (length (tc_trace s)) (tc_trace s1) @ drop (length (tc_trace s1)) (tc_trace s2)"
    using a by (metis drop_append diff_is_0_eq drop0)
  then show ?thesis
    by (simp add: calls_made_def TestCase_tearDown_def try_finally_fst s1_def s2_def)
qed



lemma tearDown_log_out_iff:
  "LogOut \<in> set (calls_made s (TestCase_tearDown env w s)) \<longleftrightarrow>
     w_raises w IsLoggedIn = None \<and> w_is_logged_in w \<and> w_raises w GoToHomePage = None"
  by (simp add: tearDown_calls base_tearDown_calls log_out_step_calls log_out_step_keeps)







section \<open>Properties of the volumes and API access pages\<close>

subsection \<open>create_volume\<close>

lemma get_source_name_ne:
  "snd (get_source_name fw vst cf vs f) = Inr source \<Longrightarrow> py_ne source (PStr ''Volume'')"
  by (auto simp: get_source_name_def form_getattr_def exc_bind_def exc_return_def py_ne_def
      split: if_splits)

lemma exc_bind_post:
  assumes "snd (exc_bind m f s) = Inr b"
    and "\<And>a s'. m s = (s', Inr a) \<Longrightarrow> snd (f a s') = Inr b \<Longrightarrow> Q (f a s')"
  shows "Q (exc_bind m f s)"
  using assms by (cases "m s") (auto simp: exc_bind_def split: sum.splits)

lemma exc_bind_cases:
  assumes "\<And>e s'. m s = (s', Inl e) \<Longrightarrow> Q (s', Inl e)"
    and "\<And>a s'. m s = (s', Inr a) \<Longrightarrow> Q (f a s')"
  shows "Q (exc_bind m f s)"
proof (cases "m s")
  case (Pair s' r)
  then show ?thesis using assms by (cases r) (simp_all add: exc_bind_def)
qed

lemma form_submit_sets: "fm_sets (fst (form_submit fw f)) = fm_sets f"
  by (simp add: form_submit_def split: option.splits)

lemma form_set_result:
  "form_set fw field attr v f = (f', r) \<Longrightarrow>
   fm_mappings f' = fm_mappings f \<and>
   (fm_sets f' = fm_sets f \<or> fm_sets f' = fm_sets f @ [(field, attr, v)])"
  by (auto simp: form_set_def form_getattr_def control_set_def exc_bind_def
      split: if_splits option.splits)

lemma description_result:
  "(case d of Some x \<Rightarrow> form_set fw ''description'' ''text'' (PStr x) | None \<Rightarrow> exc_return ()) f
     = (f', r) \<Longrightarrow>
   fm_mappings f' = fm_mappings f \<and>
   (fm_sets f' = fm_sets f \<or> (\<exists>v. fm_sets f' = fm_sets f @ [(''description'', ''text'', v)]))"
  by (cases d) (auto simp: exc_return_def dest: form_set_result)

lemma get_source_name_result:
  "get_source_name fw vst cf vs f = (f', r) \<Longrightarrow> f' = f"
  by (auto simp: get_source_name_def form_getattr_def exc_bind_def exc_return_def
      split: if_splits)

lemma get_source_name_tuple:
  "get_source_name fw vst cf vs f = (f', Inr (PTuple xs)) \<Longrightarrow>
   (vst = ''Image'' \<and> fw_has_field fw (fm_mappings f) ''image_source'')
   \<or> (vst = ''Volume'' \<and> fw_has_field fw (fm_mappings f) ''volume_id'')"
  by (auto simp: get_source_name_def form_getattr_def exc_bind_def exc_return_def
      IMAGE_SOURCE_TYPE_def VOLUME_SOURCE_TYPE_def split: if_splits)

lemma py_subscript_result:
  "py_subscript source i f = (f', r) \<Longrightarrow> f' = f \<and> (\<forall>v. r = Inr v \<longrightarrow> (\<exists>xs. source = PTuple xs))"
  by (auto simp: py_subscript_def split: pyval.splits if_splits)

lemma volume_id_not_mapped:
  "\<not> mapped_names (fm_mappings VolumesTable_create_volume) ''volume_id''"
  by (simp add: mapped_names_def VolumesTable_create_volume_def
      CREATE_VOLUME_FROM_IMAGE_FORM_FIELDS_def)

lemma guarded_sets:
  assumes "py_ne source (PStr ''Volume'')"
    and "(if py_ne source (PStr ''Volume'')
          then exc_bind (form_set fw ''type'' ''value'' (PStr (cf_volume_type cf))) (\<lambda>_.
               form_set fw ''availability_zone'' ''value'' (PStr (cf_available_zone cf)))
          else exc_return ()) f = (f', Inr u)"
  shows "fm_sets f' = fm_sets f @ [(''type'', ''value'', PStr (cf_volume_type cf)),
                      (''availability_zone'', ''value'', PStr (cf_available_zone cf))]"
  using assms
  by (auto simp: form_set_def form_getattr_def control_set_def exc_bind_def
      split: if_splits option.splits)

lemma create_volume_sets:
  assumes ok: "snd (create_volume fw cf n d vst sz vs) = Inr ()"
  shows "\<exists>before. fm_sets (fst (create_volume fw cf n d vst sz vs)) =
           before @ [(''type'', ''value'', PStr (cf_volume_type cf)),
                     (''availability_zone'', ''value'', PStr (cf_available_zone cf))]"
  apply (insert ok)
  unfolding create_volume_def
  apply (erule exc_bind_post[where Q="\<lambda>res. \<exists>before. fm_sets (fst res) =
           before @ [(''type'', ''value'', PStr (cf_volume_type cf)),
                     (''availability_zone'', ''value'', PStr (cf_available_zone cf))]"])+
  subgoal premises p for a1 s1 a2 s2 a3 s3 source s4 v s5 control s6 a7 s7 a8 s8 a9 s9
  proof -
    have "py_ne source (PStr ''Volume'')"
      using p(4) get_source_name_ne[of fw vst cf vs s3 source] by simp
    then have "fm_sets s9 = fm_sets s8 @ [(''type'', ''value'', PStr (cf_volume_type cf)),
                      (''availability_zone'', ''value'', PStr (cf_available_zone cf))]"
      using p(9) by (rule guarded_sets)
    then show ?thesis by (simp add: form_submit_sets)
  qed
  done

lemma create_volume_source_types:
  assumes ok: "snd (create_volume fw cf n d vst sz vs) = Inr ()"
  shows "vst = ''Image'' \<or> (vst = ''Volume'' \<and>
           fw_has_field fw CREATE_VOLUME_FROM_IMAGE_FORM_FIELDS ''volume_id'')"
  apply (insert ok)
  unfolding create_volume_def
  apply (erule exc_bind_post[where Q="\<lambda>res. vst = ''Image'' \<or> (vst = ''Volume'' \<and>
           fw_has_field fw CREATE_VOLUME_FROM_IMAGE_FORM_FIELDS ''volume_id'')"])+
  subgoal premises p for a1 s1 a2 s2 a3 s3 source s4 v s5 control s6 a7 s7 a8 s8 a9 s9
  proof -
    have m: "fm_mappings s3 = CREATE_VOLUME_FROM_IMAGE_FORM_FIELDS"
      using form_set_result[OF p(1)] description_result[OF p(2)] form_set_result[OF p(3)]
      by (simp add: VolumesTable_create_volume_def)
    obtain xs where "source = PTuple xs"
      using py_subscript_result[OF p(5)] by blast
    with p(4) m show ?thesis
      by (auto dest: get_source_name_tuple)
  qed
  done

text \<open>A call with a source type other than \<open>Image\<close>, on a form that resolves its mapped
  names only: whatever raises, nothing but the name, the description and the source type
  has been set, and the call does not return.\<close>

lemma create_volume_other_source:
  assumes strict: "fw_has_field fw = mapped_names" and other: "vst \<noteq> ''Image''"
  shows "snd (create_volume fw cf n d vst sz vs) \<noteq> Inr ()
     \<and> (\<forall>x \<in> set (fm_sets (fst (create_volume fw cf n d vst sz vs))).
          fst x \<in> {''name'', ''description'', ''volume_source_type''})"
  unfolding create_volume_def
  apply (rule exc_bind_cases[where Q="\<lambda>res. snd res \<noteq> Inr ()
     \<and> (\<forall>x \<in> set (fm_sets (fst res)).
          fst x \<in> {''name'', ''description'', ''volume_source_type''})"])
  subgoal premises p for e s1
    using form_set_result[OF p(1)] by (auto simp: VolumesTable_create_volume_def)
  apply (rule exc_bind_cases[where Q="\<lambda>res. snd res \<noteq> Inr ()
     \<and> (\<forall>x \<in> set (fm_sets (fst res)).
          fst x \<in> {''name'', ''description'', ''volume_source_type''})"])
  subgoal premises p for a1 s1 e s2
    using form_set_result[OF p(1)] description_result[OF p(2)]
    by (auto simp: VolumesTable_create_volume_def)
  apply (rule exc_bind_cases[where Q="\<lambda>res. snd res \<noteq> Inr ()
     \<and> (\<forall>x \<in> set (fm_sets (fst res)).
          fst x \<in> {''name'', ''description'', ''volume_source_type''})"])
  subgoal premises p for a1 s1 a2 s2 e s3
    using form_set_result[OF p(1)] description_result[OF p(2)] form_set_result[OF p(3)]
    by (auto simp: VolumesTable_create_volume_def)
  apply (rule exc_bind_cases[where Q="\<lambda>res. snd res \<noteq> Inr ()
     \<and> (\<forall>x \<in> set (fm_sets (fst res)).
          fst x \<in> {''name'', ''description'', ''volume_source_type''})"])
  subgoal premises p for a1 s1 a2 s2 a3 s3 e s4
    using form_set_result[OF p(1)] description_result[OF p(2)] form_set_result[OF p(3)]
      get_source_name_result[OF p(4)]
    by (auto simp: VolumesTable_create_volume_def)
  apply (rule exc_bind_cases[where Q="\<lambda>res. snd res \<noteq> Inr ()
     \<and> (\<forall>x \<in> set (fm_sets (fst res)).
          fst x \<in> {''name'', ''description'', ''volume_source_type''})"])
  subgoal premises p for a1 s1 a2 s2 a3 s3 source s4 e s5
    using form_set_result[OF p(1)] description_result[OF p(2)] form_set_result[OF p(3)]
      get_source_name_result[OF p(4)] py_subscript_result[OF p(5)]
    by (auto simp: VolumesTable_create_volume_def)
  subgoal premises p for a1 s1 a2 s2 a3 s3 source s4 v s5
  proof -
    have m: "fm_mappings s3 = fm_mappings VolumesTable_create_volume"
      using form_set_result[OF p(1)] description_result[OF p(2)] form_set_result[OF p(3)]
      by simp
    obtain xs where "source = PTuple xs"
      using py_subscript_result[OF p(5)] by blast
    with p(4) have "vst = ''Volume'' \<and> fw_has_field fw (fm_mappings s3) ''volume_id''"
      using other by (auto dest: get_source_name_tuple)
    with m strict volume_id_not_mapped show ?thesis by simp
  qed
  done

text \<open>
  C8, as the code has it.  In \<open>create_volume\<close> the test
  \<open>volume_source_type != "Volume"\<close> reads the local variable after it was reassigned to
  the result of \<open>_get_source_name\<close>, which is a (control, name) pair and never the
  string \<open>Volume\<close>: the test is true whenever it is reached, and every call that
  completes has set the \<open>type\<close> and \<open>availability_zone\<close> fields last, just before the
  submit.  Not every call reaches the test.  A call completes only for the source types
  \<open>Image\<close> and \<open>Volume\<close>, and for \<open>Volume\<close> only on a form that resolves
  \<open>volume_id\<close>; on a form that resolves the names of its field mappings only, as the
  form of \<open>VolumesTable.create_volume\<close> does, a call with any source type other than
  \<open>Image\<close> raises before the test, having set neither \<open>type\<close> nor
  \<open>availability_zone\<close>.
\<close>

theorem create_volume_branch_taken_when_reached:
  "(snd (get_source_name fw vst cf vs f) = Inr source \<longrightarrow> py_ne source (PStr ''Volume''))
   \<and> (snd (create_volume fw cf n d vst sz vs) = Inr () \<longrightarrow>
        (vst = ''Image'' \<or> (vst = ''Volume'' \<and>
           fw_has_field fw CREATE_VOLUME_FROM_IMAGE_FORM_FIELDS ''volume_id''))
        \<and> (\<exists>before. fm_sets (fst (create_volume fw cf n d vst sz vs)) =
           before @ [(''type'', ''value'', PStr (cf_volume_type cf)),
                     (''availability_zone'', ''value'', PStr (cf_available_zone cf))]))
   \<and> (fw_has_field fw = mapped_names \<and> vst \<noteq> ''Image'' \<longrightarrow>
        snd (create_volume fw cf n d vst sz vs) \<noteq> Inr ()
        \<and> (\<forall>x \<in> set (fm_sets (fst (create_volume fw cf n d vst sz vs))).
             fst x \<in> {''name'', ''description'', ''volume_source_type''}))"
  using get_source_name_ne[of fw vst cf vs f source] create_volume_sets[of fw cf n d vst sz vs]
    create_volume_source_types[of fw cf n d vst sz vs]
    create_volume_other_source[of fw vst cf n d sz vs]
  by blast

lemma create_volume_from_image:
  "create_volume strict_form_world conf0 ''vol1'' None ''Image'' None PNone =
     (\<lparr>fm_mappings = CREATE_VOLUME_FROM_IMAGE_FORM_FIELDS,
       fm_sets = [(''name'', ''text'', PStr ''vol1''),
                  (''volume_source_type'', ''text'', PStr ''Image''),
                  (''image_source'', ''text'', PStr ''cirros''),
                  (''size'', ''value'', PInt 1),
                  (''type'', ''value'', PStr ''lvmdriver-1''),
                  (''availability_zone'', ''value'', PStr ''nova'')],
       fm_submitted = True\<rparr>, Inr ())"
  by (simp add: create_volume_def exc_bind_def form_set_def form_getattr_def control_set_def
      py_subscript_def get_source_name_def exc_return_def form_submit_def py_ne_def
      VolumesTable_create_volume_def strict_form_world_def mapped_names_def conf0_def
      VOLUME_SOURCE_TYPE_def IMAGE_SOURCE_TYPE_def CREATE_VOLUME_FROM_IMAGE_FORM_FIELDS_def)

text \<open>A volume created from an image completes and has set the type and the
  availability zone; the same call with the source type \<open>Volume\<close> does not complete.\<close>

theorem create_volume_branch_taken_when_reached_witness:
  "snd (create_volume strict_form_world conf0 ''vol1'' None ''Image'' None PNone) = Inr ()
   \<and> (\<exists>before.
        fm_sets (fst (create_volume strict_form_world conf0 ''vol1'' None ''Image'' None PNone)) =
        before @ [(''type'', ''value'', PStr (cf_volume_type conf0)),
                  (''availability_zone'', ''value'', PStr (cf_available_zone conf0))])
   \<and> fw_has_field strict_form_world = mapped_names
   \<and> snd (create_volume strict_form_world conf0 ''vol1'' None ''Volume'' None (PStr ''vol0''))
       \<noteq> Inr ()"
proof -
  have completes: "snd (create_volume strict_form_world conf0 ''vol1'' None ''Image'' None PNone)
      = Inr ()"
    by (simp only: create_volume_from_image snd_conv)
  with create_volume_branch_taken_when_reached
    [where fw = strict_form_world and cf = conf0 and n = "''vol1''" and d = None
       and vst = "''Image''" and sz = None and vs = PNone]
  have last: "\<exists>before.
        fm_sets (fst (create_volume strict_form_world conf0 ''vol1'' None ''Image'' None PNone)) =
        before @ [(''type'', ''value'', PStr (cf_volume_type conf0)),
                  (''availability_zone'', ''value'', PStr (cf_available_zone conf0))]"
    by blast
  have strict: "fw_has_field strict_form_world = mapped_names"
    by (simp add: strict_form_world_def)
  have other: "''Volume'' \<noteq> ''Image''" by simp
  from strict other create_volume_branch_taken_when_reached
    [where fw = strict_form_world and cf = conf0 and n = "''vol1''" and d = None
       and vst = "''Volume''" and sz = None and vs = "PStr ''vol0''"]
  have fails: "snd (create_volume strict_form_world conf0 ''vol1'' None ''Volume'' None
      (PStr ''vol0'')) \<noteq> Inr ()"
    by blast
  from completes last strict fails show ?thesis by (intro conjI)
qed

text \<open>A volume created from the volume \<open>vol0\<close>: \<open>volume_id\<close> is not among the field
  mappings of the form, so the call raises in \<open>_get_source_name\<close>, before the test; the
  type and the availability zone have not been set.\<close>

theorem create_volume_from_volume_raises:
  "create_volume strict_form_world conf0 ''vol1'' None ''Volume'' None (PStr ''vol0'') =
     (\<lparr>fm_mappings = CREATE_VOLUME_FROM_IMAGE_FORM_FIELDS,
       fm_sets = [(''name'', ''text'', PStr ''vol1''),
                  (''volume_source_type'', ''text'', PStr ''Volume'')],
       fm_submitted = False\<rparr>, Inl (Exn AttributeError ''volume_id''))
   \<and> (''type'', ''value'', PStr (cf_volume_type conf0)) \<notin> set (fm_sets (fst
        (create_volume strict_form_world conf0 ''vol1'' None ''Volume'' None (PStr ''vol0''))))
   \<and> (''availability_zone'', ''value'', PStr (cf_available_zone conf0)) \<notin> set (fm_sets (fst
        (create_volume strict_form_world conf0 ''vol1'' None ''Volume'' None (PStr ''vol0''))))"
proof -
  have e: "create_volume strict_form_world conf0 ''vol1'' None ''Volume'' None (PStr ''vol0'') =
     (\<lparr>fm_mappings = CREATE_VOLUME_FROM_IMAGE_FORM_FIELDS,
       fm_sets = [(''name'', ''text'', PStr ''vol1''),
                  (''volume_source_type'', ''text'', PStr ''Volume'')],
       fm_submitted = False\<rparr>, Inl (Exn AttributeError ''volume_id''))"
    by (simp add: create_volume_def exc_bind_def form_set_def form_getattr_def control_set_def
        py_subscript_def get_source_name_def exc_return_def form_submit_def py_ne_def
        VolumesTable_create_volume_def strict_form_world_def mapped_names_def conf0_def
        VOLUME_SOURCE_TYPE_def IMAGE_SOURCE_TYPE_def CREATE_VOLUME_FROM_IMAGE_FORM_FIELDS_def)
  show ?thesis
    unfolding e by simp
qed

text \<open>A source type that is neither \<open>Image\<close> nor \<open>Volume\<close>: \<open>_get_source_name\<close> returns
  \<open>None\<close>, and subscripting it raises.\<close>

lemma create_volume_unknown_source:
  "snd (create_volume strict_form_world conf0 ''vol1'' None ''Snapshot'' None PNone) =
     Inl (Exn TypeError [])"
  by (simp add: create_volume_def exc_bind_def form_set_def form_getattr_def control_set_def
      py_subscript_def get_source_name_def exc_return_def
      VolumesTable_create_volume_def strict_form_world_def mapped_names_def conf0_def
      VOLUME_SOURCE_TYPE_def IMAGE_SOURCE_TYPE_def CREATE_VOLUME_FROM_IMAGE_FORM_FIELDS_def)

subsection \<open>Credentials\<close>


















end
